theory Spec2Isabelle
  imports Complex_Main
begin

section \<open>Errors\<close>

text \<open>
  The exceptions the backend can raise, as values. \<open>HTTPException\<close> carries the status
  code and the detail string given at the \<open>raise\<close>. \<open>ValueError\<close> is what
  \<open>math.sqrt\<close> raises on a negative argument. \<open>IntegrityError\<close> is what a commit
  raises when a row violates a constraint declared in \<open>models.py\<close> (a foreign key, or
  the unique username).
\<close>

datatype error = HTTPException int string | ValueError | IntegrityError

section \<open>Geo math (main.py, haversine\_distance\_m)\<close>

text \<open>
  Python floats are IEEE doubles, and a finite double is a real number. The float
  operations that \<open>haversine_distance_m\<close> performs are a parameter of the model: a
  record with one field per operation, of which nothing is assumed, so that every
  rounding behaviour is covered. Infinities and NaN are outside the model. What does not
  depend on rounding is written out: \<open>math.sqrt\<close> raises \<open>ValueError\<close> on a negative
  argument, and comparisons of floats are exact.
\<close>

record arith =
  f_add :: "real \<Rightarrow> real \<Rightarrow> real"
  f_sub :: "real \<Rightarrow> real \<Rightarrow> real"
  f_mul :: "real \<Rightarrow> real \<Rightarrow> real"
  f_div :: "real \<Rightarrow> real \<Rightarrow> real"
  f_pow2 :: "real \<Rightarrow> real"
  f_radians :: "real \<Rightarrow> real"
  f_sin :: "real \<Rightarrow> real"
  f_cos :: "real \<Rightarrow> real"
  f_sqrt :: "real \<Rightarrow> real"
  f_atan2 :: "real \<Rightarrow> real \<Rightarrow> real"

definition py_sqrt :: "arith \<Rightarrow> real \<Rightarrow> error + real" where
  "py_sqrt ar x = (if x < 0 then Inl ValueError else Inr (f_sqrt ar x))"

definition haversine_a :: "arith \<Rightarrow> real \<Rightarrow> real \<Rightarrow> real \<Rightarrow> real \<Rightarrow> real" where
  "haversine_a ar lat1 lon1 lat2 lon2 =
     (let phi1 = f_radians ar lat1;
          phi2 = f_radians ar lat2;
          dphi = f_radians ar (f_sub ar lat2 lat1);
          dlambda = f_radians ar (f_sub ar lon2 lon1)
      in f_add ar (f_pow2 ar (f_sin ar (f_div ar dphi 2)))
                  (f_mul ar (f_mul ar (f_cos ar phi1) (f_cos ar phi2))
                            (f_pow2 ar (f_sin ar (f_div ar dlambda 2)))))"

definition haversine_distance_m :: "arith \<Rightarrow> real \<Rightarrow> real \<Rightarrow> real \<Rightarrow> real \<Rightarrow> error + real" where
  "haversine_distance_m ar lat1 lon1 lat2 lon2 =
     (let R = 6371000;
          a = haversine_a ar lat1 lon1 lat2 lon2
      in case py_sqrt ar a of
           Inl e \<Rightarrow> Inl e
         | Inr s1 \<Rightarrow>
             (case py_sqrt ar (f_sub ar 1 a) of
                Inl e \<Rightarrow> Inl e
              | Inr s2 \<Rightarrow> Inr (f_mul ar R (f_mul ar 2 (f_atan2 ar s1 s2)))))"

text \<open>
  The arithmetic of the reals, without rounding: \<open>math.radians\<close> and \<open>math.atan2\<close>
  as functions on the reals, and the operations of HOL for the rest.
\<close>

definition radians :: "real \<Rightarrow> real" where
  "radians x = x * pi / 180"

definition atan2 :: "real \<Rightarrow> real \<Rightarrow> real" where
  "atan2 y x =
     (if 0 < x then arctan (y / x)
      else if x < 0 then (if 0 \<le> y then arctan (y / x) + pi else arctan (y / x) - pi)
      else if 0 < y then pi / 2
      else if y < 0 then - (pi / 2)
      else 0)"

definition exact :: arith where
  "exact =
     \<lparr>f_add = (\<lambda>x y. x + y), f_sub = (\<lambda>x y. x - y), f_mul = (\<lambda>x y. x * y),
      f_div = (\<lambda>x y. x / y), f_pow2 = (\<lambda>x. x\<^sup>2), f_radians = radians, f_sin = sin,
      f_cos = cos, f_sqrt = sqrt, f_atan2 = atan2\<rparr>"

section \<open>Data model (models.py, schemas.py)\<close>

text \<open>
  One record per table row and per request or response schema. Field names carry a short
  prefix of their class, since the classes share names such as \<open>id\<close> and
  \<open>user_id\<close>. Primary keys and user ids are Python ints. The columns
  \<open>created_at\<close> and \<open>updated_at\<close> are filled in by the database server's clock and
  are left out.
\<close>

record User =
  u_id :: int
  username :: string

record Geofence =
  gf_id :: int
  gf_user_id :: int
  center_lat :: real
  center_lon :: real
  radius_m :: real

record UserLocation =
  ul_id :: int
  ul_user_id :: int
  ul_lat :: real
  ul_lon :: real

record Alert =
  al_id :: int
  al_user_id :: int
  al_geofence_id :: "int option"
  al_message :: string

record Device =
  dev_id :: int
  dev_user_id :: int
  platform :: string
  fcm_token :: string

record UserCreate =
  uc_username :: string

record LocationUpdate =
  lu_user_id :: int
  lat :: real
  lon :: real

record GeofenceCreate =
  gc_user_id :: int
  gc_center_lat :: real
  gc_center_lon :: real
  gc_radius_m :: real

record LocationCheckResult =
  inside :: bool
  distance_m :: real
  alert :: bool

record DeviceRegister =
  dr_user_id :: int
  dr_platform :: string
  dr_fcm_token :: string

text \<open>
  The database is its five tables, each the list of its rows in insertion order. A query
  without \<open>order_by\<close> returns the matching rows in table order.
\<close>

record database =
  users :: "User list"
  geofences :: "Geofence list"
  user_locations :: "UserLocation list"
  alerts :: "Alert list"
  devices :: "Device list"

definition empty_db :: database where
  "empty_db = \<lparr>users = [], geofences = [], user_locations = [], alerts = [], devices = []\<rparr>"

text \<open>An autoincrement primary key: greater than every key of the table, starting at 1.\<close>

definition next_id :: "int list \<Rightarrow> int" where
  "next_id ids = fold max ids 0 + 1"

section \<open>Persistence (crud.py)\<close>

text \<open>
  Each function takes the database and returns the committed database with its result,
  or the error its commit raises. The foreign keys of \<open>models.py\<close> are checked where a
  row is inserted or its key column is written.
\<close>

definition get_user :: "database \<Rightarrow> int \<Rightarrow> User option" where
  "get_user db user_id = find (\<lambda>u. u_id u = user_id) (users db)"

definition crud_create_user :: "database \<Rightarrow> UserCreate \<Rightarrow> error + (database \<times> User)" where
  "crud_create_user db user =
     (if uc_username user \<in> set (map username (users db)) then Inl IntegrityError
      else let db_user = \<lparr>u_id = next_id (map u_id (users db)), username = uc_username user\<rparr>
           in Inr (db\<lparr>users := users db @ [db_user]\<rparr>, db_user))"

definition crud_create_geofence :: "database \<Rightarrow> GeofenceCreate \<Rightarrow> error + (database \<times> Geofence)" where
  "crud_create_geofence db geofence =
     (if get_user db (gc_user_id geofence) = None then Inl IntegrityError
      else let db_geofence =
                 \<lparr>gf_id = next_id (map gf_id (geofences db)),
                  gf_user_id = gc_user_id geofence,
                  center_lat = gc_center_lat geofence,
                  center_lon = gc_center_lon geofence,
                  radius_m = gc_radius_m geofence\<rparr>
           in Inr (db\<lparr>geofences := geofences db @ [db_geofence]\<rparr>, db_geofence))"

definition get_user_geofences :: "database \<Rightarrow> int \<Rightarrow> Geofence list" where
  "get_user_geofences db user_id = filter (\<lambda>g. gf_user_id g = user_id) (geofences db)"

definition upsert_user_location :: "database \<Rightarrow> LocationUpdate \<Rightarrow> error + (database \<times> UserLocation)" where
  "upsert_user_location db location =
     (case rev (sort_key ul_id
                  (filter (\<lambda>r. ul_user_id r = lu_user_id location) (user_locations db))) of
        existing # _ \<Rightarrow>
          Inr (db\<lparr>user_locations :=
                    map (\<lambda>r. if ul_id r = ul_id existing
                              then r\<lparr>ul_lat := lat location, ul_lon := lon location\<rparr> else r)
                        (user_locations db)\<rparr>,
               existing\<lparr>ul_lat := lat location, ul_lon := lon location\<rparr>)
      | [] \<Rightarrow>
          (if get_user db (lu_user_id location) = None then Inl IntegrityError
           else let existing =
                      \<lparr>ul_id = next_id (map ul_id (user_locations db)),
                       ul_user_id = lu_user_id location,
                       ul_lat = lat location,
                       ul_lon = lon location\<rparr>
                in Inr (db\<lparr>user_locations := user_locations db @ [existing]\<rparr>, existing)))"

definition create_alert :: "database \<Rightarrow> int \<Rightarrow> int option \<Rightarrow> string \<Rightarrow> error + (database \<times> Alert)" where
  "create_alert db user_id geofence_id message =
     (if get_user db user_id = None then Inl IntegrityError
      else if (case geofence_id of
                 None \<Rightarrow> False
               | Some g \<Rightarrow> g \<notin> set (map gf_id (geofences db)))
      then Inl IntegrityError
      else let db_alert = \<lparr>al_id = next_id (map al_id (alerts db)),
                           al_user_id = user_id,
                           al_geofence_id = geofence_id,
                           al_message = message\<rparr>
           in Inr (db\<lparr>alerts := alerts db @ [db_alert]\<rparr>, db_alert))"

definition crud_register_device :: "database \<Rightarrow> DeviceRegister \<Rightarrow> error + (database \<times> Device)" where
  "crud_register_device db device =
     (if get_user db (dr_user_id device) = None then Inl IntegrityError
      else case find (\<lambda>d. fcm_token d = dr_fcm_token device) (devices db) of
             Some existing \<Rightarrow>
               Inr (db\<lparr>devices :=
                         map (\<lambda>d. if dev_id d = dev_id existing
                                   then d\<lparr>dev_user_id := dr_user_id device, platform := dr_platform device\<rparr>
                                   else d)
                             (devices db)\<rparr>,
                    existing\<lparr>dev_user_id := dr_user_id device, platform := dr_platform device\<rparr>)
           | None \<Rightarrow>
               let new_device = \<lparr>dev_id = next_id (map dev_id (devices db)),
                                 dev_user_id = dr_user_id device,
                                 platform = dr_platform device,
                                 fcm_token = dr_fcm_token device\<rparr>
               in Inr (db\<lparr>devices := devices db @ [new_device]\<rparr>, new_device))"

definition get_devices_for_user :: "database \<Rightarrow> int \<Rightarrow> Device list" where
  "get_devices_for_user db user_id = filter (\<lambda>d. dev_user_id d = user_id) (devices db)"

section \<open>Push notifications (notifications.py)\<close>

text \<open>
  What lies outside the program is a record of outcomes: the environment variable, the
  file system, the credential exchange and the HTTP call. A call either returns a value
  or raises.
\<close>

datatype 'a attempt = Raises | Returns 'a

record fcm_message =
  msg_token :: string
  msg_title :: string
  msg_body :: string
  msg_data :: "(string \<times> string) list"

record fcm_env =
  SERVICE_ACCOUNT_FILE :: "string option"
  path_exists :: "string \<Rightarrow> bool"
  load_project_id :: "string \<Rightarrow> string option attempt"
  refresh_credentials :: "string \<Rightarrow> string option attempt"
  requests_post :: "string \<Rightarrow> string \<Rightarrow> fcm_message \<Rightarrow> (int \<times> string) attempt"

text \<open>\<open>str\<close> of a Python int.\<close>

fun str_nat :: "nat \<Rightarrow> string" where
  "str_nat n = (if n < 10 then [''0123456789'' ! n]
                else str_nat (n div 10) @ [''0123456789'' ! (n mod 10)])"

definition str_int :: "int \<Rightarrow> string" where
  "str_int i = (if i < 0 then CHR ''-'' # str_nat (nat (- i)) else str_nat (nat i))"

text \<open>The two helpers whose Python names start with an underscore.\<close>

definition get_fcm_access_token :: "fcm_env \<Rightarrow> string option" where
  "get_fcm_access_token env =
     (case SERVICE_ACCOUNT_FILE env of
        None \<Rightarrow> None
      | Some f \<Rightarrow>
          if f = [] \<or> \<not> path_exists env f then None
          else (case refresh_credentials env f of Raises \<Rightarrow> None | Returns token \<Rightarrow> token))"

definition get_project_id_from_service_account :: "fcm_env \<Rightarrow> string option" where
  "get_project_id_from_service_account env =
     (case SERVICE_ACCOUNT_FILE env of
        None \<Rightarrow> None
      | Some f \<Rightarrow>
          if f = [] \<or> \<not> path_exists env f then None
          else (case load_project_id env f of Raises \<Rightarrow> None | Returns p \<Rightarrow> p))"

definition send_fcm_notification ::
    "fcm_env \<Rightarrow> string \<Rightarrow> string \<Rightarrow> string \<Rightarrow> (string \<times> int) list option \<Rightarrow> bool" where
  "send_fcm_notification env token title body data =
     (case get_project_id_from_service_account env of
        None \<Rightarrow> False
      | Some project_id \<Rightarrow>
          if project_id = [] then False
          else (case get_fcm_access_token env of
                  None \<Rightarrow> False
                | Some access_token \<Rightarrow>
                    if access_token = [] then False
                    else let data_str = (case data of
                                           None \<Rightarrow> []
                                         | Some d \<Rightarrow> map (\<lambda>(k, v). (k, str_int v)) d);
                             url = ''https://fcm.googleapis.com/v1/projects/'' @ project_id
                                     @ ''/messages:send'';
                             authorization = ''Bearer '' @ access_token;
                             payload = \<lparr>msg_token = token, msg_title = title,
                                        msg_body = body, msg_data = data_str\<rparr>
                         in (case requests_post env url authorization payload of
                               Raises \<Rightarrow> False
                             | Returns (status_code, text) \<Rightarrow> status_code = 200)))"

section \<open>The alert task (celery\_app.py)\<close>

text \<open>
  The task's loop over the devices, with the environment of each call given by its
  position in the loop. Each call of \<open>send_fcm_notification\<close> is recorded with its
  arguments and the boolean it returned.
\<close>

record send_call =
  sc_token :: string
  sc_title :: string
  sc_body :: string
  sc_data :: "(string \<times> int) list"
  sc_result :: bool

fun send_loop ::
    "(nat \<Rightarrow> fcm_env) \<Rightarrow> nat \<Rightarrow> Alert \<Rightarrow> int \<Rightarrow> int option \<Rightarrow> string \<Rightarrow> Device list \<Rightarrow> send_call list" where
  "send_loop world i db_alert user_id geofence_id body [] = []"
| "send_loop world i db_alert user_id geofence_id body (device # ds) =
     (let data = [(''alert_id'', al_id db_alert),
                  (''user_id'', user_id),
                  (''geofence_id'', (case geofence_id of None \<Rightarrow> 0 | Some g \<Rightarrow> g))];
          ok = send_fcm_notification (world i) (fcm_token device) ''Geofence Alert'' body (Some data)
      in \<lparr>sc_token = fcm_token device, sc_title = ''Geofence Alert'', sc_body = body,
          sc_data = data, sc_result = ok\<rparr>
         # send_loop world (Suc i) db_alert user_id geofence_id body ds)"

definition process_alert_task ::
    "(nat \<Rightarrow> fcm_env) \<Rightarrow> database \<Rightarrow> int \<Rightarrow> int option \<Rightarrow> string
       \<Rightarrow> database \<times> send_call list \<times> (error + unit)" where
  "process_alert_task world db user_id geofence_id message =
     (case create_alert db user_id geofence_id message of
        Inl e \<Rightarrow> (db, [], Inl e)
      | Inr (db1, db_alert) \<Rightarrow>
          let devs = get_devices_for_user db1 user_id
          in (db1, send_loop world 0 db_alert user_id geofence_id message devs, Inr ()))"

section \<open>Request handlers (main.py)\<close>

text \<open>
  A handler returns the committed database and either its response or the exception it
  raised. \<open>update_location\<close> also takes the float arithmetic its distance is computed
  in, and the broker's queue of alert jobs, which it returns with the job it enqueued, if
  any; the job is not run by the handler.
\<close>

record alert_job =
  job_user_id :: int
  job_geofence_id :: "int option"
  job_message :: string

definition create_user :: "database \<Rightarrow> UserCreate \<Rightarrow> database \<times> (error + User)" where
  "create_user db user =
     (case crud_create_user db user of
        Inl e \<Rightarrow> (db, Inl e)
      | Inr (db1, db_user) \<Rightarrow> (db1, Inr db_user))"

definition create_geofence :: "database \<Rightarrow> GeofenceCreate \<Rightarrow> database \<times> (error + Geofence)" where
  "create_geofence db geofence =
     (case get_user db (gc_user_id geofence) of
        None \<Rightarrow> (db, Inl (HTTPException 404 ''User not found''))
      | Some db_user \<Rightarrow>
          (case crud_create_geofence db geofence of
             Inl e \<Rightarrow> (db, Inl e)
           | Inr (db1, db_geofence) \<Rightarrow> (db1, Inr db_geofence)))"

definition register_device :: "database \<Rightarrow> DeviceRegister \<Rightarrow> database \<times> (error + Device)" where
  "register_device db device =
     (case get_user db (dr_user_id device) of
        None \<Rightarrow> (db, Inl (HTTPException 404 ''User not found''))
      | Some db_user \<Rightarrow>
          (case crud_register_device db device of
             Inl e \<Rightarrow> (db, Inl e)
           | Inr (db1, d) \<Rightarrow> (db1, Inr d)))"

definition update_location ::
    "arith \<Rightarrow> database \<Rightarrow> alert_job list \<Rightarrow> LocationUpdate
       \<Rightarrow> database \<times> alert_job list \<times> (error + LocationCheckResult)" where
  "update_location ar db queue location =
     (case get_user db (lu_user_id location) of
        None \<Rightarrow> (db, queue, Inl (HTTPException 404 ''User not found''))
      | Some db_user \<Rightarrow>
          (case upsert_user_location db location of
             Inl e \<Rightarrow> (db, queue, Inl e)
           | Inr (db1, _) \<Rightarrow>
               (case get_user_geofences db1 (lu_user_id location) of
                  [] \<Rightarrow> (db1, queue, Inl (HTTPException 400 ''User has no geofences configured''))
                | gf # _ \<Rightarrow>
                    (case haversine_distance_m ar (lat location) (lon location)
                            (center_lat gf) (center_lon gf) of
                       Inl e \<Rightarrow> (db1, queue, Inl e)
                     | Inr distance \<Rightarrow>
                         let is_inside = distance \<le> radius_m gf;
                             is_alert = \<not> is_inside;
                             queue1 = (if is_alert
                                       then queue @ [\<lparr>job_user_id = lu_user_id location,
                                                      job_geofence_id = Some (gf_id gf),
                                                      job_message = ''User is outside geofenced area''\<rparr>]
                                       else queue)
                         in (db1, queue1,
                             Inr \<lparr>inside = is_inside, distance_m = distance, alert = is_alert\<rparr>)))))"

section \<open>Reachable databases\<close>

text \<open>
  The databases the public interface can produce from the empty one: the four writing
  routes of \<open>main.py\<close> and the alert task, with any arguments.
\<close>

inductive reachable :: "database \<Rightarrow> bool" where
  init: "reachable empty_db"
| user: "reachable db \<Longrightarrow> reachable (fst (create_user db u))"
| geofence: "reachable db \<Longrightarrow> reachable (fst (create_geofence db g))"
| device: "reachable db \<Longrightarrow> reachable (fst (register_device db d))"
| location: "reachable db \<Longrightarrow> reachable (fst (update_location ar db q l))"
| task: "reachable db \<Longrightarrow> reachable (fst (process_alert_task w db uid gid msg))"

section \<open>Example states\<close>

text \<open>
  Small databases built through the handlers, used to run the theorems below on
  concrete inputs. User 1 is \<open>ann\<close>. In \<open>fenced_db\<close> she owns two geofences: the
  first created is centred at (0, 180) with radius 100 m, the second at (0, 0) with radius
  50 m.
\<close>

definition ann_db :: database where
  "ann_db = fst (create_user empty_db \<lparr>uc_username = ''ann''\<rparr>)"

definition fenced_db :: database where
  "fenced_db =
     fst (create_geofence
            (fst (create_geofence ann_db
                    \<lparr>gc_user_id = 1, gc_center_lat = 0, gc_center_lon = 180, gc_radius_m = 100\<rparr>))
            \<lparr>gc_user_id = 1, gc_center_lat = 0, gc_center_lon = 0, gc_radius_m = 50\<rparr>)"

text \<open>
  In \<open>shared_db\<close> a second user, \<open>bob\<close>, created his geofence (centre (0, 0),
  radius 10 m) before ann created her two.
\<close>

definition shared_db :: database where
  "shared_db =
     fst (create_geofence
            (fst (create_geofence
                    (fst (create_geofence
                            (fst (create_user ann_db \<lparr>uc_username = ''bob''\<rparr>))
                            \<lparr>gc_user_id = 2, gc_center_lat = 0, gc_center_lon = 0, gc_radius_m = 10\<rparr>))
                    \<lparr>gc_user_id = 1, gc_center_lat = 0, gc_center_lon = 180, gc_radius_m = 100\<rparr>))
            \<lparr>gc_user_id = 1, gc_center_lat = 0, gc_center_lon = 0, gc_radius_m = 50\<rparr>)"

definition origin :: "int \<Rightarrow> LocationUpdate" where
  "origin uid = \<lparr>lu_user_id = uid, lat = 0, lon = 0\<rparr>"

text \<open>
  In \<open>south_db\<close> ann's only geofence is centred at (-8, 180) with radius 100 m, and
  \<open>north_point\<close> is her update at (8, 0), almost opposite on the sphere.
  \<open>binary64_at_north_point\<close> gives, for each float operation that the distance between
  these two points performs, the value IEEE double arithmetic returns for it, as an exact
  fraction; on every other argument it is the exact operation. The values of
  \<open>math.radians\<close>, \<open>math.sin\<close> and \<open>math.cos\<close> are the doubles the math module
  returns. Of the arithmetic operations met here, the square of the sine, the product of
  the cosines and the final sum are rounded, the others are exact in doubles; the sum
  comes out one unit in the last place above 1.
\<close>

definition south_db :: database where
  "south_db =
     fst (create_geofence ann_db
            \<lparr>gc_user_id = 1, gc_center_lat = - 8, gc_center_lon = 180, gc_radius_m = 100\<rparr>)"

definition north_point :: LocationUpdate where
  "north_point = \<lparr>lu_user_id = 1, lat = 8, lon = 0\<rparr>"

definition binary64_at_north_point :: arith where
  "binary64_at_north_point =
     exact\<lparr>
       f_radians :=
         (\<lambda>x. if x = 8 then 5030569068109113 / 36028797018963968
              else if x = - 8 then - (5030569068109113 / 36028797018963968)
              else if x = - 16 then - (5030569068109113 / 18014398509481984)
              else if x = 180 then 884279719003555 / 281474976710656
              else radians x),
       f_sin :=
         (\<lambda>x. if x = - (5030569068109113 / 36028797018963968)
              then - (5014239404989977 / 36028797018963968)
              else if x = 884279719003555 / 562949953421312 then 1
              else sin x),
       f_cos :=
         (\<lambda>x. if x = 5030569068109113 / 36028797018963968
                 \<or> x = - (5030569068109113 / 36028797018963968)
              then 4459770905381437 / 4503599627370496
              else cos x),
       f_pow2 :=
         (\<lambda>x. if x = - (5014239404989977 / 36028797018963968)
              then 1395694493897217 / 72057594037927936
              else x\<^sup>2),
       f_mul :=
         (\<lambda>x y. if x = 4459770905381437 / 4503599627370496
                   \<and> y = 4459770905381437 / 4503599627370496
                then 8832737443003841 / 9007199254740992
                else x * y),
       f_add :=
         (\<lambda>x y. if x = 1395694493897217 / 72057594037927936
                   \<and> y = 8832737443003841 / 9007199254740992
                then 4503599627370497 / 4503599627370496
                else x + y)\<rparr>"

text \<open>
  In \<open>devices_db\<close> ann has also registered three devices. \<open>good_env\<close> is an
  environment where credentials are found and the provider answers 200; in \<open>bad_env\<close>
  the HTTP call raises. \<open>second_fails\<close> gives the second call of the loop the bad
  environment and every other call the good one.
\<close>

definition devices_db :: database where
  "devices_db =
     fst (register_device
            (fst (register_device
                    (fst (register_device fenced_db
                            \<lparr>dr_user_id = 1, dr_platform = ''android'', dr_fcm_token = ''t1''\<rparr>))
                    \<lparr>dr_user_id = 1, dr_platform = ''ios'', dr_fcm_token = ''t2''\<rparr>))
            \<lparr>dr_user_id = 1, dr_platform = ''web'', dr_fcm_token = ''t3''\<rparr>)"

definition good_env :: fcm_env where
  "good_env =
     \<lparr>SERVICE_ACCOUNT_FILE = Some ''sa.json'',
      path_exists = (\<lambda>f. True),
      load_project_id = (\<lambda>f. Returns (Some ''geo'')),
      refresh_credentials = (\<lambda>f. Returns (Some ''tok'')),
      requests_post = (\<lambda>url authorization payload. Returns (200, ''''))\<rparr>"

definition bad_env :: fcm_env where
  "bad_env = good_env\<lparr>requests_post := (\<lambda>url authorization payload. Raises)\<rparr>"

definition second_fails :: "nat \<Rightarrow> fcm_env" where
  "second_fails i = (if i = 1 then bad_env else good_env)"

section \<open>Properties of the geo math\<close>

lemma exact_simps:
  "f_add exact x y = x + y" "f_sub exact x y = x - y" "f_mul exact x y = x * y"
  "f_div exact x y = x / y" "f_pow2 exact x = x\<^sup>2" "f_radians exact x = radians x"
  "f_sin exact x = sin x" "f_cos exact x = cos x" "f_sqrt exact x = sqrt x"
  "f_atan2 exact y x = atan2 y x"
  by (simp_all add: exact_def)

lemma haversine_a_exact:
  "haversine_a exact lat1 lon1 lat2 lon2 =
     (sin (radians (lat2 - lat1) / 2))\<^sup>2
     + cos (radians lat1) * cos (radians lat2) * (sin (radians (lon2 - lon1) / 2))\<^sup>2"
  by (simp add: haversine_a_def exact_simps Let_def)

lemma radians_diff: "radians (x - y) = radians x - radians y"
  by (simp add: radians_def diff_divide_distrib left_diff_distrib)

lemma radians_minus: "radians (- z) = - radians z"
  by (simp add: radians_def)

lemma radians_swap: "radians (x - y) / 2 = - (radians (y - x) / 2)"
  using radians_minus [of "y - x"] by simp

lemma sin_half_squared: "(sin (x / 2))\<^sup>2 = (1 - cos x) / (2::real)"
proof -
  have "cos x = cos (2 * (x / 2))" by simp
  also have "\<dots> = 1 - 2 * (sin (x / 2))\<^sup>2" by (rule cos_double_sin)
  finally show ?thesis by (simp add: field_simps)
qed

lemma sin_half_swap: "(sin (radians (x - y) / 2))\<^sup>2 = (sin (radians (y - x) / 2))\<^sup>2"
  by (simp only: radians_swap [of x y] sin_minus power2_minus)

lemma haversine_a_sym:
  "haversine_a exact lat1 lon1 lat2 lon2 = haversine_a exact lat2 lon2 lat1 lon1"
  unfolding haversine_a_exact
  by (simp only: sin_half_swap [of lat2 lat1] sin_half_swap [of lon2 lon1] mult.commute [of "cos (radians lat1)"])

lemma haversine_a_convex:
  "haversine_a exact lat1 lon1 lat2 lon2 =
     (1 - (sin (radians (lon2 - lon1) / 2))\<^sup>2) * ((1 - cos (radians lat2 - radians lat1)) / 2)
     + (sin (radians (lon2 - lon1) / 2))\<^sup>2 * ((1 + cos (radians lat1 + radians lat2)) / 2)"
proof -
  define h where "h = (sin (radians (lon2 - lon1) / 2))\<^sup>2"
  define u where "u = cos (radians lat2 - radians lat1)"
  define v where "v = cos (radians lat1 + radians lat2)"
  have s: "(sin (radians (lat2 - lat1) / 2))\<^sup>2 = (1 - u) / 2"
    by (simp only: sin_half_squared radians_diff u_def)
  have c: "cos (radians lat1) * cos (radians lat2) = (u + v) / 2"
    using cos_times_cos [of "radians lat2" "radians lat1"]
    by (simp add: u_def v_def mult.commute add.commute)
  have "haversine_a exact lat1 lon1 lat2 lon2 = (1 - u) / 2 + (u + v) / 2 * h"
    unfolding haversine_a_exact s c h_def ..
  also have "\<dots> = (1 - h) * ((1 - u) / 2) + h * ((1 + v) / 2)"
    by (simp add: algebra_simps add_divide_distrib diff_divide_distrib)
  finally show ?thesis unfolding h_def u_def v_def .
qed

lemma haversine_a_range:
  "0 \<le> haversine_a exact lat1 lon1 lat2 lon2 \<and> haversine_a exact lat1 lon1 lat2 lon2 \<le> 1"
proof -
  define h where "h = (sin (radians (lon2 - lon1) / 2))\<^sup>2"
  define p where "p = (1 - cos (radians lat2 - radians lat1)) / 2"
  define q where "q = (1 + cos (radians lat1 + radians lat2)) / 2"
  have a: "haversine_a exact lat1 lon1 lat2 lon2 = (1 - h) * p + h * q"
    unfolding h_def p_def q_def by (rule haversine_a_convex)
  have h0: "0 \<le> h" unfolding h_def by simp
  have h1: "h \<le> 1" unfolding h_def
    using sin_squared_eq [of "radians (lon2 - lon1) / 2"] by simp
  have p0: "0 \<le> p" unfolding p_def
    using cos_le_one [of "radians lat2 - radians lat1"] by simp
  have "1 - cos (radians lat2 - radians lat1) \<le> 2"
    using cos_ge_minus_one [of "radians lat2 - radians lat1"] by linarith
  then have p1: "p \<le> 1" unfolding p_def by simp
  have "0 \<le> 1 + cos (radians lat1 + radians lat2)"
    using cos_ge_minus_one [of "radians lat1 + radians lat2"] by linarith
  then have q0: "0 \<le> q" unfolding q_def by simp
  have q1: "q \<le> 1" unfolding q_def
    using cos_le_one [of "radians lat1 + radians lat2"] by simp
  have lo: "0 \<le> (1 - h) * p + h * q"
    using h0 h1 p0 q0 by simp
  have "(1 - h) * p \<le> (1 - h) * 1" using h1 p1 by (intro mult_left_mono) simp_all
  moreover have "h * q \<le> h * 1" using h0 q1 by (intro mult_left_mono) simp_all
  ultimately have hi: "(1 - h) * p + h * q \<le> 1" by simp
  from lo hi show ?thesis unfolding a by simp
qed

lemma haversine_distance_m_exact:
  "haversine_distance_m exact lat1 lon1 lat2 lon2 =
     Inr (6371000 * (2 * atan2 (sqrt (haversine_a exact lat1 lon1 lat2 lon2))
                               (sqrt (1 - haversine_a exact lat1 lon1 lat2 lon2))))"
  using haversine_a_range [of lat1 lon1 lat2 lon2]
  by (simp add: haversine_distance_m_def py_sqrt_def Let_def exact_simps)

lemma haversine_a_same: "haversine_a exact la lo la lo = 0"
  by (simp add: haversine_a_exact radians_def)

lemma atan2_zero_one: "atan2 0 1 = 0"
  by (simp add: atan2_def)

text \<open>
  In any arithmetic, the distance raises as soon as the computed \<open>a\<close> is not negative
  and the computed \<open>1 - a\<close> is: nothing in the function keeps \<open>a\<close> below 1.
\<close>

lemma haversine_distance_m_raises:
  assumes "0 \<le> haversine_a ar lat1 lon1 lat2 lon2"
    and "f_sub ar 1 (haversine_a ar lat1 lon1 lat2 lon2) < 0"
  shows "haversine_distance_m ar lat1 lon1 lat2 lon2 = Inl ValueError"
  using assms by (simp add: haversine_distance_m_def py_sqrt_def Let_def)

lemma haversine_a_north_point:
  "haversine_a binary64_at_north_point 8 0 (- 8) 180 = 4503599627370497 / 4503599627370496"
  by (simp add: haversine_a_def binary64_at_north_point_def exact_def Let_def)

lemma haversine_north_point:
  "haversine_distance_m binary64_at_north_point 8 0 (- 8) 180 = Inl ValueError"
  by (rule haversine_distance_m_raises)
     (simp_all add: haversine_a_north_point, simp add: binary64_at_north_point_def exact_def)

text \<open>
  Claim C9. The distance function is symmetric, and the distance from a point to itself
  is zero: in the exact arithmetic of the reals, \<open>haversine_distance_m\<close> gives the same
  result with its two points swapped, and returns 0 (raising nothing) when both points are
  equal. Coordinates are unrestricted reals; the sphere radius is 6371000.
\<close>

theorem haversine_symmetric_zero:
  "haversine_distance_m exact lat1 lon1 lat2 lon2 = haversine_distance_m exact lat2 lon2 lat1 lon1
   \<and> haversine_distance_m exact lat1 lon1 lat1 lon1 = Inr 0"
proof
  show "haversine_distance_m exact lat1 lon1 lat2 lon2 = haversine_distance_m exact lat2 lon2 lat1 lon1"
    by (simp only: haversine_distance_m_exact haversine_a_sym [of lat1 lon1 lat2 lon2])
  show "haversine_distance_m exact lat1 lon1 lat1 lon1 = Inr 0"
    by (simp add: haversine_distance_m_exact haversine_a_same atan2_zero_one)
qed

section \<open>Properties of the persistence layer\<close>

lemma fold_max_ge: "(a::int) \<le> fold max xs a \<and> (\<forall>x\<in>set xs. x \<le> fold max xs a)"
proof (induction xs arbitrary: a)
  case Nil
  then show ?case by simp
next
  case (Cons y ys)
  have 1: "max y a \<le> fold max ys (max y a)" using Cons.IH [of "max y a"] by simp
  have 2: "\<forall>x\<in>set ys. x \<le> fold max ys (max y a)" using Cons.IH [of "max y a"] by simp
  from 1 2 show ?case by auto
qed

lemma next_id_gt: "x \<in> set ids \<Longrightarrow> x < next_id ids"
  using fold_max_ge [of 0 ids] by (auto simp: next_id_def)

lemma get_user_Some: "get_user db uid = Some u \<Longrightarrow> u \<in> set (users db) \<and> u_id u = uid"
  by (auto simp: get_user_def find_Some_iff)

lemma upsert_user_location_cases:
  "upsert_user_location db location = Inr (db1, row) \<Longrightarrow>
     users db1 = users db \<and> geofences db1 = geofences db \<and> alerts db1 = alerts db
     \<and> devices db1 = devices db"
  by (auto simp: upsert_user_location_def Let_def split: list.splits if_splits)

lemma upsert_user_location_ok:
  assumes "get_user db (lu_user_id location) \<noteq> None"
  shows "\<exists>db1 row. upsert_user_location db location = Inr (db1, row)"
  using assms by (auto simp: upsert_user_location_def Let_def split: list.splits)

lemma get_user_geofences_upsert:
  "upsert_user_location db location = Inr (db1, row) \<Longrightarrow>
     get_user_geofences db1 uid = get_user_geofences db uid"
  by (simp add: get_user_geofences_def upsert_user_location_cases)

section \<open>Properties of the location update handler\<close>

lemma haversine_distance_m_exact_ex: "\<exists>d. haversine_distance_m exact lat1 lon1 lat2 lon2 = Inr d"
  by (simp add: haversine_distance_m_exact)

lemma update_location_not_found:
  "get_user db (lu_user_id location) = None \<Longrightarrow>
     update_location ar db queue location = (db, queue, Inl (HTTPException 404 ''User not found''))"
  by (simp add: update_location_def)

lemma update_location_no_geofence:
  assumes "get_user db (lu_user_id location) \<noteq> None"
    and "upsert_user_location db location = Inr (db1, row)"
    and "get_user_geofences db (lu_user_id location) = []"
  shows "update_location ar db queue location =
           (db1, queue, Inl (HTTPException 400 ''User has no geofences configured''))"
proof -
  from assms(1) obtain u where u: "get_user db (lu_user_id location) = Some u" by auto
  have g: "get_user_geofences db1 (lu_user_id location) = []"
    using assms(2,3) by (simp add: get_user_geofences_upsert)
  show ?thesis by (simp add: update_location_def u assms(2) g)
qed

lemma update_location_geofence:
  assumes "get_user db (lu_user_id location) \<noteq> None"
    and "upsert_user_location db location = Inr (db1, row)"
    and "get_user_geofences db (lu_user_id location) = gf # rest"
    and "haversine_distance_m ar (lat location) (lon location) (center_lat gf) (center_lon gf) = Inr d"
  shows "update_location ar db queue location =
           (db1,
            (if d \<le> radius_m gf then queue
             else queue @ [\<lparr>job_user_id = lu_user_id location,
                             job_geofence_id = Some (gf_id gf),
                             job_message = ''User is outside geofenced area''\<rparr>]),
            Inr \<lparr>inside = (d \<le> radius_m gf), distance_m = d, alert = (\<not> d \<le> radius_m gf)\<rparr>)"
proof -
  from assms(1) obtain u where u: "get_user db (lu_user_id location) = Some u" by auto
  have g: "get_user_geofences db1 (lu_user_id location) = gf # rest"
    using assms(2,3) by (simp add: get_user_geofences_upsert)
  show ?thesis by (simp add: update_location_def u assms(2) g assms(4) Let_def)
qed

lemma update_location_raises:
  assumes "get_user db (lu_user_id location) \<noteq> None"
    and "upsert_user_location db location = Inr (db1, row)"
    and "get_user_geofences db (lu_user_id location) = gf # rest"
    and "haversine_distance_m ar (lat location) (lon location) (center_lat gf) (center_lon gf) = Inl e"
  shows "update_location ar db queue location = (db1, queue, Inl e)"
proof -
  from assms(1) obtain u where u: "get_user db (lu_user_id location) = Some u" by auto
  have g: "get_user_geofences db1 (lu_user_id location) = gf # rest"
    using assms(2,3) by (simp add: get_user_geofences_upsert)
  show ?thesis by (simp add: update_location_def u assms(2) g assms(4))
qed

lemma update_location_evaluates:
  assumes "get_user db (lu_user_id location) \<noteq> None"
    and "upsert_user_location db location = Inr (db1, row)"
    and "get_user_geofences db (lu_user_id location) = gf # rest"
  shows "update_location ar db queue location =
           (case haversine_distance_m ar (lat location) (lon location)
                   (center_lat gf) (center_lon gf) of
              Inl e \<Rightarrow> (db1, queue, Inl e)
            | Inr d \<Rightarrow>
                (db1,
                 (if d \<le> radius_m gf then queue
                  else queue @ [\<lparr>job_user_id = lu_user_id location,
                                  job_geofence_id = Some (gf_id gf),
                                  job_message = ''User is outside geofenced area''\<rparr>]),
                 Inr \<lparr>inside = (d \<le> radius_m gf), distance_m = d,
                      alert = (\<not> d \<le> radius_m gf)\<rparr>))"
proof (cases "haversine_distance_m ar (lat location) (lon location) (center_lat gf) (center_lon gf)")
  case (Inl e)
  then show ?thesis using update_location_raises [OF assms Inl, of queue] by simp
next
  case (Inr d)
  then show ?thesis using update_location_geofence [OF assms Inr, of queue] by simp
qed

lemma update_location_db:
  assumes u: "get_user db (lu_user_id location) \<noteq> None"
    and up: "upsert_user_location db location = Inr (db1, row)"
  shows "fst (update_location ar db queue location) = db1"
proof (cases "get_user_geofences db (lu_user_id location)")
  case Nil
  then show ?thesis using update_location_no_geofence [OF u up] by simp
next
  case (Cons gf rest)
  show ?thesis
    unfolding update_location_evaluates [OF u up Cons]
    by (simp split: sum.splits)
qed

lemma update_location_success:
  assumes "update_location ar db queue location = (db1, queue1, Inr res)"
  shows "\<exists>row gf rest d.
           get_user db (lu_user_id location) \<noteq> None
           \<and> upsert_user_location db location = Inr (db1, row)
           \<and> get_user_geofences db (lu_user_id location) = gf # rest
           \<and> haversine_distance_m ar (lat location) (lon location) (center_lat gf) (center_lon gf)
               = Inr d
           \<and> queue1 = (if d \<le> radius_m gf then queue
                        else queue @ [\<lparr>job_user_id = lu_user_id location,
                                        job_geofence_id = Some (gf_id gf),
                                        job_message = ''User is outside geofenced area''\<rparr>])
           \<and> res = \<lparr>inside = (d \<le> radius_m gf), distance_m = d, alert = (\<not> d \<le> radius_m gf)\<rparr>"
proof (cases "get_user db (lu_user_id location)")
  case None
  with assms show ?thesis by (simp add: update_location_not_found)
next
  case (Some u)
  then have u: "get_user db (lu_user_id location) \<noteq> None" by simp
  obtain db2 row where up: "upsert_user_location db location = Inr (db2, row)"
    using upsert_user_location_ok [OF u] by blast
  show ?thesis
  proof (cases "get_user_geofences db (lu_user_id location)")
    case Nil
    with assms show ?thesis using update_location_no_geofence [OF u up Nil, of ar queue] by simp
  next
    case (Cons gf rest)
    show ?thesis
    proof (cases "haversine_distance_m ar (lat location) (lon location) (center_lat gf) (center_lon gf)")
      case (Inl e)
      with assms show ?thesis using update_location_raises [OF u up Cons Inl, of queue] by simp
    next
      case (Inr d)
      from assms update_location_geofence [OF u up Cons Inr, of queue]
      have eqs: "db1 = db2"
        "queue1 = (if d \<le> radius_m gf then queue
                   else queue @ [\<lparr>job_user_id = lu_user_id location,
                                   job_geofence_id = Some (gf_id gf),
                                   job_message = ''User is outside geofenced area''\<rparr>])"
        "res = \<lparr>inside = (d \<le> radius_m gf), distance_m = d, alert = (\<not> d \<le> radius_m gf)\<rparr>"
        by simp_all
      from up eqs(1) have up': "upsert_user_location db location = Inr (db1, row)" by simp
      show ?thesis
        by (intro exI conjI) (fact u, fact up', fact Cons, fact Inr, fact eqs(2), fact eqs(3))
    qed
  qed
qed

lemma ann_db_eq:
  "ann_db = \<lparr>users = [\<lparr>u_id = 1, username = ''ann''\<rparr>], geofences = [], user_locations = [],
             alerts = [], devices = []\<rparr>"
  by (simp add: ann_db_def create_user_def crud_create_user_def empty_db_def next_id_def Let_def)

lemma fenced_db_eq:
  "fenced_db =
     \<lparr>users = [\<lparr>u_id = 1, username = ''ann''\<rparr>],
      geofences = [\<lparr>gf_id = 1, gf_user_id = 1, center_lat = 0, center_lon = 180, radius_m = 100\<rparr>,
                   \<lparr>gf_id = 2, gf_user_id = 1, center_lat = 0, center_lon = 0, radius_m = 50\<rparr>],
      user_locations = [], alerts = [], devices = []\<rparr>"
  by (simp add: fenced_db_def ann_db_eq create_geofence_def crud_create_geofence_def get_user_def
      next_id_def Let_def)

lemma south_db_eq:
  "south_db =
     \<lparr>users = [\<lparr>u_id = 1, username = ''ann''\<rparr>],
      geofences = [\<lparr>gf_id = 1, gf_user_id = 1, center_lat = - 8, center_lon = 180,
                    radius_m = 100\<rparr>],
      user_locations = [], alerts = [], devices = []\<rparr>"
  by (simp add: south_db_def ann_db_eq create_geofence_def crud_create_geofence_def get_user_def
      next_id_def Let_def)

lemma haversine_a_antipode: "haversine_a exact 0 0 0 180 = 1"
  by (simp add: haversine_a_exact radians_def)

lemma haversine_antipode: "haversine_distance_m exact 0 0 0 180 = Inr (6371000 * pi)"
  by (simp add: haversine_distance_m_exact haversine_a_antipode atan2_def)

lemma far_outside: "100 < 6371000 * pi"
  using pi_ge_two by linarith

lemma upsert_ann_origin:
  "upsert_user_location ann_db (origin 1) =
     Inr (ann_db\<lparr>user_locations := [\<lparr>ul_id = 1, ul_user_id = 1, ul_lat = 0, ul_lon = 0\<rparr>]\<rparr>,
          \<lparr>ul_id = 1, ul_user_id = 1, ul_lat = 0, ul_lon = 0\<rparr>)"
  by (simp add: upsert_user_location_def ann_db_eq origin_def get_user_def next_id_def Let_def)

lemma upsert_south_north:
  "upsert_user_location south_db north_point =
     Inr (south_db\<lparr>user_locations := [\<lparr>ul_id = 1, ul_user_id = 1, ul_lat = 8, ul_lon = 0\<rparr>]\<rparr>,
          \<lparr>ul_id = 1, ul_user_id = 1, ul_lat = 8, ul_lon = 0\<rparr>)"
  by (simp add: upsert_user_location_def south_db_eq north_point_def get_user_def next_id_def
      Let_def)

lemma south_user: "get_user south_db (lu_user_id north_point) \<noteq> None"
  by (simp add: south_db_eq north_point_def get_user_def)

lemma south_geofences:
  "get_user_geofences south_db (lu_user_id north_point) =
     [\<lparr>gf_id = 1, gf_user_id = 1, center_lat = - 8, center_lon = 180, radius_m = 100\<rparr>]"
  by (simp add: south_db_eq north_point_def get_user_geofences_def)

lemma update_location_south_north:
  "update_location binary64_at_north_point south_db [] north_point =
     (south_db\<lparr>user_locations := [\<lparr>ul_id = 1, ul_user_id = 1, ul_lat = 8, ul_lon = 0\<rparr>]\<rparr>,
      [], Inl ValueError)"
proof -
  have h: "haversine_distance_m binary64_at_north_point (lat north_point) (lon north_point)
             (center_lat \<lparr>gf_id = 1, gf_user_id = 1, center_lat = - 8, center_lon = 180,
                           radius_m = 100\<rparr>)
             (center_lon \<lparr>gf_id = 1, gf_user_id = 1, center_lat = - 8, center_lon = 180,
                           radius_m = 100\<rparr>) = Inl ValueError"
    by (simp add: north_point_def haversine_north_point)
  show ?thesis
    by (rule update_location_raises [OF south_user upsert_south_north south_geofences h])
qed

text \<open>
  Claim C1. When the user of a location update exists and owns at least one geofence,
  \<open>update_location\<close> is to return a result whose \<open>distance_m\<close> is the haversine
  distance to the centre of the selected geofence and whose \<open>inside\<close> flag holds exactly
  when that distance is at most the radius. The result has that form whenever the distance
  is computed (\<open>update_location_geofence\<close>), but the code does not always return one: at
  \<open>north_point\<close> against \<open>south_db\<close>, in double arithmetic, the preconditions hold,
  \<open>haversine_distance_m\<close> raises \<open>ValueError\<close> and the handler returns no result.
\<close>

theorem update_location_containment_value_error:
  "get_user south_db (lu_user_id north_point) \<noteq> None
   \<and> get_user_geofences south_db (lu_user_id north_point) =
       [\<lparr>gf_id = 1, gf_user_id = 1, center_lat = - 8, center_lon = 180, radius_m = 100\<rparr>]
   \<and> haversine_a binary64_at_north_point (lat north_point) (lon north_point) (- 8) 180
       = 1 + 1 / 2 ^ 52
   \<and> haversine_distance_m binary64_at_north_point (lat north_point) (lon north_point) (- 8) 180
       = Inl ValueError
   \<and> snd (snd (update_location binary64_at_north_point south_db [] north_point))
       = Inl ValueError"
proof (intro conjI)
  show "get_user south_db (lu_user_id north_point) \<noteq> None" by (rule south_user)
  show "get_user_geofences south_db (lu_user_id north_point) =
       [\<lparr>gf_id = 1, gf_user_id = 1, center_lat = - 8, center_lon = 180, radius_m = 100\<rparr>]"
    by (rule south_geofences)
  show "haversine_a binary64_at_north_point (lat north_point) (lon north_point) (- 8) 180
       = 1 + 1 / 2 ^ 52"
    by (simp add: north_point_def haversine_a_north_point)
  show "haversine_distance_m binary64_at_north_point (lat north_point) (lon north_point) (- 8) 180
       = Inl ValueError"
    by (simp add: north_point_def haversine_north_point)
  show "snd (snd (update_location binary64_at_north_point south_db [] north_point))
       = Inl ValueError"
    by (simp add: update_location_south_north)
qed

text \<open>
  Claim C2. For every call of \<open>update_location\<close>: when the user id matches no user it
  raises the 404 exception (\<open>update_location_not_found\<close>); when the user exists and owns
  no geofence it raises the 400 exception (\<open>update_location_no_geofence\<close>); otherwise it
  is to return a result and no error. The code misses the last part: at \<open>north_point\<close>
  against \<open>south_db\<close>, in double arithmetic, the user exists and owns a geofence, the
  location is committed, and the handler raises \<open>ValueError\<close>, which is neither of the
  two errors of the claim nor a result.
\<close>

theorem update_location_errors_value_error:
  "get_user south_db (lu_user_id north_point) \<noteq> None
   \<and> get_user_geofences south_db (lu_user_id north_point) \<noteq> []
   \<and> update_location binary64_at_north_point south_db [] north_point =
       (south_db\<lparr>user_locations := [\<lparr>ul_id = 1, ul_user_id = 1, ul_lat = 8, ul_lon = 0\<rparr>]\<rparr>,
        [], Inl ValueError)"
proof (intro conjI)
  show "get_user south_db (lu_user_id north_point) \<noteq> None" by (rule south_user)
  show "get_user_geofences south_db (lu_user_id north_point) \<noteq> []"
    by (simp add: south_geofences)
  show "update_location binary64_at_north_point south_db [] north_point =
       (south_db\<lparr>user_locations := [\<lparr>ul_id = 1, ul_user_id = 1, ul_lat = 8, ul_lon = 0\<rparr>]\<rparr>,
        [], Inl ValueError)"
    by (rule update_location_south_north)
qed

lemma upsert_user_location_row:
  assumes "upsert_user_location db location = Inr (db1, row)"
  shows "row \<in> set (user_locations db1) \<and> ul_user_id row = lu_user_id location
         \<and> ul_lat row = lat location \<and> ul_lon row = lon location"
proof (cases "rev (sort_key ul_id (filter (\<lambda>r. ul_user_id r = lu_user_id location) (user_locations db)))")
  case Nil
  with assms show ?thesis
    by (auto simp: upsert_user_location_def Let_def split: if_splits)
next
  case (Cons existing others)
  have "existing \<in> set (rev (sort_key ul_id (filter (\<lambda>r. ul_user_id r = lu_user_id location) (user_locations db))))"
    unfolding Cons by simp
  then have e: "existing \<in> set (user_locations db)" and u: "ul_user_id existing = lu_user_id location"
    by simp_all
  from assms Cons have db1: "user_locations db1 =
      map (\<lambda>r. if ul_id r = ul_id existing
                then r\<lparr>ul_lat := lat location, ul_lon := lon location\<rparr> else r) (user_locations db)"
    and row: "row = existing\<lparr>ul_lat := lat location, ul_lon := lon location\<rparr>"
    by (auto simp: upsert_user_location_def)
  have "row \<in> set (user_locations db1)"
    unfolding db1 row using e by force
  then show ?thesis using u by (simp add: row)
qed

text \<open>
  Claim C3, as stated, fails for an update whose user does not exist: on the empty database
  the request is rejected with 404 and no location row is written.
\<close>

theorem update_location_unknown_user_no_write:
  "snd (snd (update_location exact empty_db [] (origin 1)))
     = Inl (HTTPException 404 ''User not found'')
   \<and> user_locations (fst (update_location exact empty_db [] (origin 1))) = []"
  by (simp add: update_location_def get_user_def empty_db_def)

text \<open>
  Claim C3, amended. An update whose user does not exist is rejected with 404 and leaves
  the database and the queue as they were. For every update whose user exists, one upsert
  of the user's location is performed and committed: the database the handler leaves is the
  one \<open>upsert_user_location\<close> returns, and it holds the user's row with the update's
  coordinates. This is so in particular when the user owns no geofence: the handler then
  raises the 400 exception after the upsert has been committed.
\<close>

theorem update_location_persists_first:
  "(get_user db (lu_user_id location) = None \<longrightarrow>
      update_location ar db queue location = (db, queue, Inl (HTTPException 404 ''User not found'')))
   \<and> (get_user db (lu_user_id location) \<noteq> None \<longrightarrow>
        (\<exists>db1 row.
           upsert_user_location db location = Inr (db1, row)
           \<and> fst (update_location ar db queue location) = db1
           \<and> row \<in> set (user_locations db1)
           \<and> ul_user_id row = lu_user_id location
           \<and> ul_lat row = lat location \<and> ul_lon row = lon location
           \<and> (get_user_geofences db (lu_user_id location) = [] \<longrightarrow>
                update_location ar db queue location
                  = (db1, queue, Inl (HTTPException 400 ''User has no geofences configured'')))))"
proof (intro conjI impI)
  assume "get_user db (lu_user_id location) = None"
  then show "update_location ar db queue location
               = (db, queue, Inl (HTTPException 404 ''User not found''))"
    by (rule update_location_not_found)
next
  assume u: "get_user db (lu_user_id location) \<noteq> None"
  obtain db1 row where up: "upsert_user_location db location = Inr (db1, row)"
    using upsert_user_location_ok [OF u] by blast
  have db1: "fst (update_location ar db queue location) = db1"
    by (rule update_location_db [OF u up])
  have nogf: "get_user_geofences db (lu_user_id location) = [] \<longrightarrow>
                update_location ar db queue location
                  = (db1, queue, Inl (HTTPException 400 ''User has no geofences configured''))"
    using update_location_no_geofence [OF u up] by simp
  show "\<exists>db1 row.
           upsert_user_location db location = Inr (db1, row)
           \<and> fst (update_location ar db queue location) = db1
           \<and> row \<in> set (user_locations db1)
           \<and> ul_user_id row = lu_user_id location
           \<and> ul_lat row = lat location \<and> ul_lon row = lon location
           \<and> (get_user_geofences db (lu_user_id location) = [] \<longrightarrow>
                update_location ar db queue location
                  = (db1, queue, Inl (HTTPException 400 ''User has no geofences configured'')))"
    using up db1 nogf upsert_user_location_row [OF up] by blast
qed

theorem update_location_persists_first_witness:
  "get_user empty_db (lu_user_id (origin 1)) = None
   \<and> update_location exact empty_db [] (origin 1)
       = (empty_db, [], Inl (HTTPException 404 ''User not found''))
   \<and> get_user ann_db (lu_user_id (origin 1)) \<noteq> None
   \<and> get_user_geofences ann_db (lu_user_id (origin 1)) = []
   \<and> update_location exact ann_db [] (origin 1)
       = (ann_db\<lparr>user_locations := [\<lparr>ul_id = 1, ul_user_id = 1, ul_lat = 0, ul_lon = 0\<rparr>]\<rparr>, [],
          Inl (HTTPException 400 ''User has no geofences configured''))"
proof -
  have e: "get_user empty_db (lu_user_id (origin 1)) = None"
    by (simp add: empty_db_def get_user_def)
  have a: "get_user ann_db (lu_user_id (origin 1)) \<noteq> None"
    by (simp add: ann_db_eq origin_def get_user_def)
  have g: "get_user_geofences ann_db (lu_user_id (origin 1)) = []"
    by (simp add: ann_db_eq origin_def get_user_geofences_def)
  from update_location_persists_first [of empty_db "origin 1" exact "[]"]
       update_location_persists_first [of ann_db "origin 1" exact "[]"] e a g
  show ?thesis by (auto simp: upsert_ann_origin)
qed

text \<open>
  Claim C4. For every successful update the alert flag is the negation of \<open>inside\<close> and
  holds exactly when the distance exceeds the radius of the selected geofence; the queue
  gains one job exactly when the alert flag holds, and that job carries the update's user
  id, the selected geofence's id and the fixed message. The handler returns its result with
  the job still on the queue: it creates no alert row itself. Both directions are stated:
  an update that passes the preconditions and whose distance is computed succeeds in this
  way, and every update that succeeds did so in this way.
\<close>

theorem update_location_dispatch:
  "(get_user db (lu_user_id location) \<noteq> None
      \<and> get_user_geofences db (lu_user_id location) = gf # rest
      \<and> haversine_distance_m ar (lat location) (lon location) (center_lat gf) (center_lon gf)
          = Inr d \<longrightarrow>
      (\<exists>db1 res.
         alert res = (radius_m gf < d)
         \<and> alert res = (\<not> inside res)
         \<and> alerts db1 = alerts db
         \<and> update_location ar db queue location =
             (db1,
              (if alert res
               then queue @ [\<lparr>job_user_id = lu_user_id location,
                               job_geofence_id = Some (gf_id gf),
                               job_message = ''User is outside geofenced area''\<rparr>]
               else queue),
              Inr res)))
   \<and> (update_location ar db queue location = (db2, queue2, Inr res2) \<longrightarrow>
        (\<exists>gf2 rest2 d2.
           get_user_geofences db (lu_user_id location) = gf2 # rest2
           \<and> haversine_distance_m ar (lat location) (lon location)
                 (center_lat gf2) (center_lon gf2) = Inr d2
           \<and> alert res2 = (radius_m gf2 < d2)
           \<and> alert res2 = (\<not> inside res2)
           \<and> alerts db2 = alerts db
           \<and> queue2 =
               (if alert res2
                then queue @ [\<lparr>job_user_id = lu_user_id location,
                                job_geofence_id = Some (gf_id gf2),
                                job_message = ''User is outside geofenced area''\<rparr>]
                else queue)))"
proof (intro conjI impI)
  assume a: "get_user db (lu_user_id location) \<noteq> None
      \<and> get_user_geofences db (lu_user_id location) = gf # rest
      \<and> haversine_distance_m ar (lat location) (lon location) (center_lat gf) (center_lon gf)
          = Inr d"
  then have u: "get_user db (lu_user_id location) \<noteq> None"
    and g: "get_user_geofences db (lu_user_id location) = gf # rest"
    and d: "haversine_distance_m ar (lat location) (lon location) (center_lat gf) (center_lon gf)
              = Inr d"
    by simp_all
  obtain db1 row where up: "upsert_user_location db location = Inr (db1, row)"
    using upsert_user_location_ok [OF u] by blast
  define res where "res = \<lparr>inside = (d \<le> radius_m gf), distance_m = d, alert = (\<not> d \<le> radius_m gf)\<rparr>"
  have 1: "alert res = (radius_m gf < d)" by (auto simp: res_def)
  have 2: "alert res = (\<not> inside res)" by (simp add: res_def)
  have 3: "alerts db1 = alerts db" using upsert_user_location_cases [OF up] by simp
  have 4: "update_location ar db queue location =
               (db1,
                (if alert res
                 then queue @ [\<lparr>job_user_id = lu_user_id location,
                                 job_geofence_id = Some (gf_id gf),
                                 job_message = ''User is outside geofenced area''\<rparr>]
                 else queue),
                Inr res)"
    using update_location_geofence [OF u up g d, of queue] by (simp add: res_def)
  show "\<exists>db1 res.
         alert res = (radius_m gf < d)
         \<and> alert res = (\<not> inside res)
         \<and> alerts db1 = alerts db
         \<and> update_location ar db queue location =
             (db1,
              (if alert res
               then queue @ [\<lparr>job_user_id = lu_user_id location,
                               job_geofence_id = Some (gf_id gf),
                               job_message = ''User is outside geofenced area''\<rparr>]
               else queue),
              Inr res)"
    by (intro exI conjI) (fact 1, fact 2, fact 3, fact 4)
next
  assume ok: "update_location ar db queue location = (db2, queue2, Inr res2)"
  from update_location_success [OF ok] obtain row gf2 rest2 d2 where
    up: "upsert_user_location db location = Inr (db2, row)"
    and g: "get_user_geofences db (lu_user_id location) = gf2 # rest2"
    and d: "haversine_distance_m ar (lat location) (lon location)
              (center_lat gf2) (center_lon gf2) = Inr d2"
    and q: "queue2 = (if d2 \<le> radius_m gf2 then queue
                      else queue @ [\<lparr>job_user_id = lu_user_id location,
                                      job_geofence_id = Some (gf_id gf2),
                                      job_message = ''User is outside geofenced area''\<rparr>])"
    and r: "res2 = \<lparr>inside = (d2 \<le> radius_m gf2), distance_m = d2,
                     alert = (\<not> d2 \<le> radius_m gf2)\<rparr>"
    by (elim exE conjE) (rule that, assumption+)
  have 1: "alert res2 = (radius_m gf2 < d2)" by (auto simp: r)
  have 2: "alert res2 = (\<not> inside res2)" by (simp add: r)
  have 3: "alerts db2 = alerts db" using upsert_user_location_cases [OF up] by simp
  have 4: "queue2 =
               (if alert res2
                then queue @ [\<lparr>job_user_id = lu_user_id location,
                                job_geofence_id = Some (gf_id gf2),
                                job_message = ''User is outside geofenced area''\<rparr>]
                else queue)"
    by (simp add: q r)
  show "\<exists>gf2 rest2 d2.
           get_user_geofences db (lu_user_id location) = gf2 # rest2
           \<and> haversine_distance_m ar (lat location) (lon location)
                 (center_lat gf2) (center_lon gf2) = Inr d2
           \<and> alert res2 = (radius_m gf2 < d2)
           \<and> alert res2 = (\<not> inside res2)
           \<and> alerts db2 = alerts db
           \<and> queue2 =
               (if alert res2
                then queue @ [\<lparr>job_user_id = lu_user_id location,
                                job_geofence_id = Some (gf_id gf2),
                                job_message = ''User is outside geofenced area''\<rparr>]
                else queue)"
    by (intro exI conjI) (fact g, fact d, fact 1, fact 2, fact 3, fact 4)
qed

lemma fenced_user: "get_user fenced_db (lu_user_id (origin 1)) \<noteq> None"
  by (simp add: fenced_db_eq origin_def get_user_def)

lemma fenced_geofences:
  "get_user_geofences fenced_db (lu_user_id (origin 1))
     = [\<lparr>gf_id = 1, gf_user_id = 1, center_lat = 0, center_lon = 180, radius_m = 100\<rparr>,
        \<lparr>gf_id = 2, gf_user_id = 1, center_lat = 0, center_lon = 0, radius_m = 50\<rparr>]"
  by (simp add: fenced_db_eq origin_def get_user_geofences_def)

lemma upsert_fenced_origin:
  "upsert_user_location fenced_db (origin 1) =
     Inr (fenced_db\<lparr>user_locations := [\<lparr>ul_id = 1, ul_user_id = 1, ul_lat = 0, ul_lon = 0\<rparr>]\<rparr>,
          \<lparr>ul_id = 1, ul_user_id = 1, ul_lat = 0, ul_lon = 0\<rparr>)"
  by (simp add: upsert_user_location_def fenced_db_eq origin_def get_user_def next_id_def Let_def)

lemma update_location_fenced_origin:
  "update_location exact fenced_db [] (origin 1) =
     (fenced_db\<lparr>user_locations := [\<lparr>ul_id = 1, ul_user_id = 1, ul_lat = 0, ul_lon = 0\<rparr>]\<rparr>,
      [\<lparr>job_user_id = 1, job_geofence_id = Some 1,
        job_message = ''User is outside geofenced area''\<rparr>],
      Inr \<lparr>inside = False, distance_m = 6371000 * pi, alert = True\<rparr>)"
proof -
  have h: "haversine_distance_m exact (lat (origin 1)) (lon (origin 1))
             (center_lat \<lparr>gf_id = 1, gf_user_id = 1, center_lat = 0, center_lon = 180,
                           radius_m = 100\<rparr>)
             (center_lon \<lparr>gf_id = 1, gf_user_id = 1, center_lat = 0, center_lon = 180,
                           radius_m = 100\<rparr>) = Inr (6371000 * pi)"
    by (simp add: origin_def haversine_antipode)
  have far: "\<not> 6371000 * pi \<le> 100" using far_outside by simp
  show ?thesis
    using update_location_geofence [OF fenced_user upsert_fenced_origin fenced_geofences h, of "[]"]
    by (simp add: far origin_def)
qed

theorem update_location_dispatch_witness:
  "get_user fenced_db (lu_user_id (origin 1)) \<noteq> None
   \<and> get_user_geofences fenced_db (lu_user_id (origin 1))
       = [\<lparr>gf_id = 1, gf_user_id = 1, center_lat = 0, center_lon = 180, radius_m = 100\<rparr>,
          \<lparr>gf_id = 2, gf_user_id = 1, center_lat = 0, center_lon = 0, radius_m = 50\<rparr>]
   \<and> haversine_distance_m exact (lat (origin 1)) (lon (origin 1)) 0 180 = Inr (6371000 * pi)
   \<and> (\<exists>db1 res. update_location exact fenced_db [] (origin 1) =
         (db1,
          [\<lparr>job_user_id = 1, job_geofence_id = Some 1,
            job_message = ''User is outside geofenced area''\<rparr>],
          Inr res) \<and> alert res \<and> \<not> inside res)
   \<and> (\<exists>gf2 rest2.
         get_user_geofences fenced_db (lu_user_id (origin 1)) = gf2 # rest2 \<and> gf_id gf2 = 1)"
proof -
  have h: "haversine_distance_m exact (lat (origin 1)) (lon (origin 1)) 0 180 = Inr (6371000 * pi)"
    by (simp add: origin_def haversine_antipode)
  note inst = update_location_dispatch
    [of fenced_db "origin 1"
        "\<lparr>gf_id = 1, gf_user_id = 1, center_lat = 0, center_lon = 180, radius_m = 100\<rparr>"
        "[\<lparr>gf_id = 2, gf_user_id = 1, center_lat = 0, center_lon = 0, radius_m = 50\<rparr>]"
        exact "6371000 * pi" "[]"
        "fenced_db\<lparr>user_locations := [\<lparr>ul_id = 1, ul_user_id = 1, ul_lat = 0, ul_lon = 0\<rparr>]\<rparr>"
        "[\<lparr>job_user_id = 1, job_geofence_id = Some 1,
           job_message = ''User is outside geofenced area''\<rparr>]"
        "\<lparr>inside = False, distance_m = 6371000 * pi, alert = True\<rparr>"]
  from inst fenced_user fenced_geofences h
  have first: "\<exists>db1 res. update_location exact fenced_db [] (origin 1) =
         (db1,
          [\<lparr>job_user_id = 1, job_geofence_id = Some 1,
            job_message = ''User is outside geofenced area''\<rparr>],
          Inr res) \<and> alert res \<and> \<not> inside res"
    by (auto simp: origin_def far_outside)
  from inst update_location_fenced_origin
  have second: "\<exists>gf2 rest2.
         get_user_geofences fenced_db (lu_user_id (origin 1)) = gf2 # rest2 \<and> gf_id gf2 = 1"
    by (auto split: if_splits)
  from fenced_user fenced_geofences h first second show ?thesis by (intro conjI)
qed

section \<open>Reachable databases and the selected geofence\<close>

lemma geofences_create_user: "geofences (fst (create_user db u)) = geofences db"
  by (simp add: create_user_def crud_create_user_def Let_def)

lemma geofences_create_geofence:
  "geofences (fst (create_geofence db g)) = geofences db
   \<or> (\<exists>gf. geofences (fst (create_geofence db g)) = geofences db @ [gf]
            \<and> gf_id gf = next_id (map gf_id (geofences db)))"
  by (simp add: create_geofence_def crud_create_geofence_def Let_def split: option.splits)

lemma geofences_register_device: "geofences (fst (register_device db d)) = geofences db"
  by (simp add: register_device_def crud_register_device_def Let_def split: option.splits)

lemma geofences_update_location: "geofences (fst (update_location ar db q l)) = geofences db"
proof (cases "get_user db (lu_user_id l)")
  case None
  then show ?thesis by (simp add: update_location_not_found)
next
  case (Some u)
  then have u: "get_user db (lu_user_id l) \<noteq> None" by simp
  obtain db1 row where up: "upsert_user_location db l = Inr (db1, row)"
    using upsert_user_location_ok [OF u] by blast
  show ?thesis
    using update_location_db [OF u up, of ar q] upsert_user_location_cases [OF up] by simp
qed

lemma geofences_process_alert_task:
  "geofences (fst (process_alert_task w db uid gid msg)) = geofences db"
  by (auto simp: process_alert_task_def create_alert_def Let_def split: option.splits)

lemma reachable_geofence_ids:
  "reachable db \<Longrightarrow> sorted_wrt (<) (map gf_id (geofences db))"
proof (induction rule: reachable.induct)
  case init
  show ?case by (simp add: empty_db_def)
next
  case (user db u)
  then show ?case by (simp add: geofences_create_user)
next
  case (geofence db g)
  from geofences_create_geofence [of db g] show ?case
  proof
    assume "geofences (fst (create_geofence db g)) = geofences db"
    with geofence.IH show ?thesis by simp
  next
    assume "\<exists>gf. geofences (fst (create_geofence db g)) = geofences db @ [gf]
                  \<and> gf_id gf = next_id (map gf_id (geofences db))"
    then obtain gf where eq: "geofences (fst (create_geofence db g)) = geofences db @ [gf]"
      and nid: "gf_id gf = next_id (map gf_id (geofences db))" by blast
    have "\<forall>x\<in>set (map gf_id (geofences db)). x < gf_id gf"
      unfolding nid using next_id_gt by blast
    with geofence.IH show ?thesis
      unfolding eq by (simp add: sorted_wrt_append)
  qed
next
  case (device db d)
  then show ?case by (simp add: geofences_register_device)
next
  case (location db ar q l)
  then show ?case by (simp add: geofences_update_location)
next
  case (task db w uid gid msg)
  then show ?case by (simp add: geofences_process_alert_task)
qed

lemma first_of_filter:
  assumes "filter P xs = y # ys"
  shows "\<exists>pre post. xs = pre @ y # post \<and> (\<forall>x\<in>set pre. \<not> P x)"
  using assms by (auto simp: filter_eq_Cons_iff)

text \<open>
  Claim C5. In every database the public interface can produce, for every update of a user
  who exists and owns one or more geofences, the geofence the handler evaluates is the
  first of the user's geofences in insertion order: no geofence of the user precedes it in
  the table, and every other geofence of the user has a greater id, ids being handed out in
  creation order. The handler's outcome is decided by the distance to that geofence alone:
  the result's distance and flags and the id carried by the job are those of that geofence,
  and an error of the distance computation is the handler's error.
\<close>

theorem update_location_first_geofence:
  assumes "reachable db"
    and "get_user db (lu_user_id location) \<noteq> None"
    and "get_user_geofences db (lu_user_id location) \<noteq> []"
  shows "\<exists>gf pre post db1.
           geofences db = pre @ gf # post
           \<and> gf_user_id gf = lu_user_id location
           \<and> (\<forall>g\<in>set pre. gf_user_id g \<noteq> lu_user_id location)
           \<and> (\<forall>g\<in>set (geofences db).
                 gf_user_id g = lu_user_id location \<longrightarrow> g = gf \<or> gf_id gf < gf_id g)
           \<and> update_location ar db queue location =
               (case haversine_distance_m ar (lat location) (lon location)
                       (center_lat gf) (center_lon gf) of
                  Inl e \<Rightarrow> (db1, queue, Inl e)
                | Inr d \<Rightarrow>
                    (db1,
                     (if d \<le> radius_m gf then queue
                      else queue @ [\<lparr>job_user_id = lu_user_id location,
                                      job_geofence_id = Some (gf_id gf),
                                      job_message = ''User is outside geofenced area''\<rparr>]),
                     Inr \<lparr>inside = (d \<le> radius_m gf), distance_m = d,
                          alert = (\<not> d \<le> radius_m gf)\<rparr>))"
proof -
  let ?uid = "lu_user_id location"
  from assms(3) obtain gf rest where g: "get_user_geofences db ?uid = gf # rest"
    by (cases "get_user_geofences db ?uid") auto
  then have f: "filter (\<lambda>g. gf_user_id g = ?uid) (geofences db) = gf # rest"
    by (simp add: get_user_geofences_def)
  from first_of_filter [OF f] obtain pre post where
    split: "geofences db = pre @ gf # post" and pre: "\<forall>x\<in>set pre. gf_user_id x \<noteq> ?uid"
    by blast
  have "gf \<in> set (filter (\<lambda>g. gf_user_id g = ?uid) (geofences db))"
    unfolding f by simp
  then have own: "gf_user_id gf = ?uid" by simp
  have "sorted_wrt (<) (map gf_id (filter (\<lambda>g. gf_user_id g = ?uid) (geofences db)))"
    using reachable_geofence_ids [OF assms(1)]
    by (simp add: sorted_wrt_map sorted_wrt_filter)
  then have older: "\<forall>g\<in>set rest. gf_id gf < gf_id g"
    unfolding f by simp
  have least: "\<forall>g\<in>set (geofences db). gf_user_id g = ?uid \<longrightarrow> g = gf \<or> gf_id gf < gf_id g"
  proof (intro ballI impI)
    fix g assume "g \<in> set (geofences db)" and "gf_user_id g = ?uid"
    then have "g \<in> set (filter (\<lambda>g. gf_user_id g = ?uid) (geofences db))" by simp
    then have "g = gf \<or> g \<in> set rest" unfolding f by simp
    with older show "g = gf \<or> gf_id gf < gf_id g" by blast
  qed
  obtain db1 row where up: "upsert_user_location db location = Inr (db1, row)"
    using upsert_user_location_ok [OF assms(2)] by blast
  note r = update_location_evaluates [OF assms(2) up g, of ar queue]
  show ?thesis
    by (intro exI conjI) (fact split, fact own, fact pre, fact least, fact r)
qed

lemma shared_db_eq:
  "shared_db =
     \<lparr>users = [\<lparr>u_id = 1, username = ''ann''\<rparr>, \<lparr>u_id = 2, username = ''bob''\<rparr>],
      geofences = [\<lparr>gf_id = 1, gf_user_id = 2, center_lat = 0, center_lon = 0, radius_m = 10\<rparr>,
                   \<lparr>gf_id = 2, gf_user_id = 1, center_lat = 0, center_lon = 180, radius_m = 100\<rparr>,
                   \<lparr>gf_id = 3, gf_user_id = 1, center_lat = 0, center_lon = 0, radius_m = 50\<rparr>],
      user_locations = [], alerts = [], devices = []\<rparr>"
  by (simp add: shared_db_def ann_db_eq create_user_def crud_create_user_def create_geofence_def
      crud_create_geofence_def get_user_def next_id_def Let_def)

lemma reachable_shared_db: "reachable shared_db"
  unfolding shared_db_def ann_db_def
  by (intro reachable.geofence reachable.user reachable.init)

theorem update_location_first_geofence_witness:
  "reachable shared_db
   \<and> get_user shared_db (lu_user_id (origin 1)) \<noteq> None
   \<and> get_user_geofences shared_db (lu_user_id (origin 1)) \<noteq> []
   \<and> (\<exists>db1. update_location exact shared_db [] (origin 1) =
         (db1,
          [\<lparr>job_user_id = 1, job_geofence_id = Some 2,
            job_message = ''User is outside geofenced area''\<rparr>],
          Inr \<lparr>inside = False, distance_m = 6371000 * pi, alert = True\<rparr>))"
proof -
  have u: "get_user shared_db (lu_user_id (origin 1)) \<noteq> None"
    by (simp add: shared_db_eq origin_def get_user_def)
  have g: "get_user_geofences shared_db (lu_user_id (origin 1)) \<noteq> []"
    by (simp add: shared_db_eq origin_def get_user_geofences_def)
  from update_location_first_geofence [OF reachable_shared_db u g, of exact "[]"]
  obtain gf pre post db1 where
    split: "geofences shared_db = pre @ gf # post"
    and own: "gf_user_id gf = lu_user_id (origin 1)"
    and pre: "\<forall>g\<in>set pre. gf_user_id g \<noteq> lu_user_id (origin 1)"
    and r: "update_location exact shared_db [] (origin 1) =
               (case haversine_distance_m exact (lat (origin 1)) (lon (origin 1))
                       (center_lat gf) (center_lon gf) of
                  Inl e \<Rightarrow> (db1, [], Inl e)
                | Inr d \<Rightarrow>
                    (db1,
                     (if d \<le> radius_m gf then []
                      else [] @ [\<lparr>job_user_id = lu_user_id (origin 1),
                                   job_geofence_id = Some (gf_id gf),
                                   job_message = ''User is outside geofenced area''\<rparr>]),
                     Inr \<lparr>inside = (d \<le> radius_m gf), distance_m = d,
                          alert = (\<not> d \<le> radius_m gf)\<rparr>))"
    by blast
  have gf: "gf = \<lparr>gf_id = 2, gf_user_id = 1, center_lat = 0, center_lon = 180, radius_m = 100\<rparr>"
  proof (cases pre)
    case Nil
    with split own show ?thesis by (auto simp: shared_db_eq origin_def)
  next
    case outer: (Cons p ps)
    show ?thesis
    proof (cases ps)
      case Nil
      with outer split show ?thesis by (auto simp: shared_db_eq)
    next
      case (Cons q qs)
      with outer split
      have "q = \<lparr>gf_id = 2, gf_user_id = 1, center_lat = 0, center_lon = 180, radius_m = 100\<rparr>"
        by (simp add: shared_db_eq)
      with pre outer Cons show ?thesis by (auto simp: origin_def)
    qed
  qed
  have far: "\<not> 6371000 * pi \<le> 100" using far_outside by simp
  from r have "update_location exact shared_db [] (origin 1) =
         (db1,
          [\<lparr>job_user_id = 1, job_geofence_id = Some 2,
            job_message = ''User is outside geofenced area''\<rparr>],
          Inr \<lparr>inside = False, distance_m = 6371000 * pi, alert = True\<rparr>)"
    by (simp add: gf origin_def haversine_antipode far)
  with reachable_shared_db u g show ?thesis by blast
qed

section \<open>Properties of the alert task\<close>

lemma devices_db_eq:
  "devices_db =
     \<lparr>users = [\<lparr>u_id = 1, username = ''ann''\<rparr>],
      geofences = [\<lparr>gf_id = 1, gf_user_id = 1, center_lat = 0, center_lon = 180, radius_m = 100\<rparr>,
                   \<lparr>gf_id = 2, gf_user_id = 1, center_lat = 0, center_lon = 0, radius_m = 50\<rparr>],
      user_locations = [], alerts = [],
      devices = [\<lparr>dev_id = 1, dev_user_id = 1, platform = ''android'', fcm_token = ''t1''\<rparr>,
                 \<lparr>dev_id = 2, dev_user_id = 1, platform = ''ios'', fcm_token = ''t2''\<rparr>,
                 \<lparr>dev_id = 3, dev_user_id = 1, platform = ''web'', fcm_token = ''t3''\<rparr>]\<rparr>"
  by (simp add: devices_db_def fenced_db_eq register_device_def crud_register_device_def
      get_user_def next_id_def Let_def)

lemma send_good: "send_fcm_notification good_env token title body data"
  by (simp add: send_fcm_notification_def get_project_id_from_service_account_def
      get_fcm_access_token_def good_env_def Let_def)

lemma send_bad: "\<not> send_fcm_notification bad_env token title body data"
  by (simp add: send_fcm_notification_def get_project_id_from_service_account_def
      get_fcm_access_token_def good_env_def bad_env_def Let_def)

lemma send_loop_tokens:
  "map sc_token (send_loop world i a uid gid body ds) = map fcm_token ds"
  by (induction ds arbitrary: i) (simp_all add: Let_def)

lemma send_loop_length: "length (send_loop world i a uid gid body ds) = length ds"
  by (induction ds arbitrary: i) (simp_all add: Let_def)

lemma send_loop_alert_id:
  "c \<in> set (send_loop world i a uid gid body ds) \<Longrightarrow>
     map_of (sc_data c) ''alert_id'' = Some (al_id a)"
  by (induction ds arbitrary: i) (auto simp: Let_def)

lemma send_loop_result:
  "k < length ds \<Longrightarrow>
     sc_result (send_loop world i a uid gid body ds ! k) =
       send_fcm_notification (world (i + k)) (fcm_token (ds ! k)) ''Geofence Alert'' body
         (Some [(''alert_id'', al_id a), (''user_id'', uid),
                (''geofence_id'', (case gid of None \<Rightarrow> 0 | Some g \<Rightarrow> g))])"
proof (induction ds arbitrary: i k)
  case Nil
  then show ?case by simp
next
  case (Cons dv ds)
  show ?case
  proof (cases k)
    case 0
    then show ?thesis by (simp add: Let_def)
  next
    case (Suc j)
    with Cons.prems have "j < length ds" by simp
    from Cons.IH [OF this, of "Suc i"] Suc show ?thesis by (simp add: Let_def)
  qed
qed

lemma create_alert_row:
  assumes "create_alert db uid gid msg = Inr (db1, a)"
  shows "db1 = db\<lparr>alerts := alerts db @ [a]\<rparr>
         \<and> a = \<lparr>al_id = next_id (map al_id (alerts db)), al_user_id = uid,
                 al_geofence_id = gid, al_message = msg\<rparr>"
  using assms by (auto simp: create_alert_def Let_def split: if_splits)

lemma process_alert_task_failed:
  "create_alert db uid gid msg = Inl e \<Longrightarrow>
     process_alert_task world db uid gid msg = (db, [], Inl e)"
  by (simp add: process_alert_task_def)

lemma process_alert_task_done:
  "create_alert db uid gid msg = Inr (db1, a) \<Longrightarrow>
     process_alert_task world db uid gid msg =
       (db1, send_loop world 0 a uid gid msg (get_devices_for_user db uid), Inr ())"
  using create_alert_row [of db uid gid msg db1 a]
  by (simp add: process_alert_task_def get_devices_for_user_def)

lemma create_alert_empty: "create_alert empty_db 1 None ''out'' = Inl IntegrityError"
  by (simp add: create_alert_def get_user_def empty_db_def)

lemma create_alert_devices:
  "create_alert devices_db 1 (Some 1) ''out'' =
     Inr (devices_db\<lparr>alerts := [\<lparr>al_id = 1, al_user_id = 1, al_geofence_id = Some 1,
                                   al_message = ''out''\<rparr>]\<rparr>,
          \<lparr>al_id = 1, al_user_id = 1, al_geofence_id = Some 1, al_message = ''out''\<rparr>)"
  by (simp add: create_alert_def get_user_def devices_db_eq next_id_def Let_def)

lemma devices_of_ann: "map fcm_token (get_devices_for_user devices_db 1) = [''t1'', ''t2'', ''t3'']"
  by (simp add: get_devices_for_user_def devices_db_eq)


text \<open>
  Claim C6. In the alert task the alert row (user id, geofence id, message) is persisted
  before any notification is attempted. If \<open>create_alert\<close> fails, the task fails with
  that error, the database is unchanged and no send is attempted. If it succeeds, exactly
  one row is appended to the alerts table, with a fresh id, and every send that follows
  carries the id of that committed row in its data.
\<close>

theorem process_alert_task_persists_first:
  "(create_alert db user_id geofence_id message = Inl e \<longrightarrow>
      process_alert_task world db user_id geofence_id message = (db, [], Inl e))
   \<and> (create_alert db user_id geofence_id message = Inr (db1, a) \<longrightarrow>
        (\<exists>sends.
           process_alert_task world db user_id geofence_id message = (db1, sends, Inr ())
           \<and> alerts db1 = alerts db @ [a]
           \<and> al_user_id a = user_id \<and> al_geofence_id a = geofence_id \<and> al_message a = message
           \<and> al_id a \<notin> set (map al_id (alerts db))
           \<and> (\<forall>c\<in>set sends. map_of (sc_data c) ''alert_id'' = Some (al_id a))))"
proof (intro conjI impI)
  assume "create_alert db user_id geofence_id message = Inl e"
  then show "process_alert_task world db user_id geofence_id message = (db, [], Inl e)"
    by (rule process_alert_task_failed)
next
  assume ok: "create_alert db user_id geofence_id message = Inr (db1, a)"
  let ?sends = "send_loop world 0 a user_id geofence_id message (get_devices_for_user db user_id)"
  note row = create_alert_row [OF ok]
  have 1: "process_alert_task world db user_id geofence_id message = (db1, ?sends, Inr ())"
    using ok by (rule process_alert_task_done)
  have 2: "alerts db1 = alerts db @ [a]" using row by simp
  have 3: "al_user_id a = user_id \<and> al_geofence_id a = geofence_id \<and> al_message a = message"
    using row by simp
  have "al_id a = next_id (map al_id (alerts db))" using row by simp
  then have 4: "al_id a \<notin> set (map al_id (alerts db))"
    using next_id_gt [of "al_id a" "map al_id (alerts db)"] by auto
  have 5: "\<forall>c\<in>set ?sends. map_of (sc_data c) ''alert_id'' = Some (al_id a)"
    using send_loop_alert_id by blast
  show "\<exists>sends.
           process_alert_task world db user_id geofence_id message = (db1, sends, Inr ())
           \<and> alerts db1 = alerts db @ [a]
           \<and> al_user_id a = user_id \<and> al_geofence_id a = geofence_id \<and> al_message a = message
           \<and> al_id a \<notin> set (map al_id (alerts db))
           \<and> (\<forall>c\<in>set sends. map_of (sc_data c) ''alert_id'' = Some (al_id a))"
    using 1 2 3 4 5 by (intro exI [of _ ?sends]) simp
qed


theorem process_alert_task_persists_first_witness:
  "create_alert empty_db 1 None ''out'' = Inl IntegrityError
   \<and> process_alert_task second_fails empty_db 1 None ''out'' = (empty_db, [], Inl IntegrityError)
   \<and> create_alert devices_db 1 (Some 1) ''out'' =
       Inr (devices_db\<lparr>alerts := [\<lparr>al_id = 1, al_user_id = 1, al_geofence_id = Some 1,
                                     al_message = ''out''\<rparr>]\<rparr>,
            \<lparr>al_id = 1, al_user_id = 1, al_geofence_id = Some 1, al_message = ''out''\<rparr>)
   \<and> (\<exists>sends.
         process_alert_task second_fails devices_db 1 (Some 1) ''out'' =
           (devices_db\<lparr>alerts := [\<lparr>al_id = 1, al_user_id = 1, al_geofence_id = Some 1,
                                     al_message = ''out''\<rparr>]\<rparr>, sends, Inr ())
         \<and> (\<forall>c\<in>set sends. map_of (sc_data c) ''alert_id'' = Some 1))"
proof -
  note f = process_alert_task_persists_first
             [of empty_db 1 None "''out''" IntegrityError second_fails]
  note s = process_alert_task_persists_first
             [of devices_db 1 "Some 1" "''out''" _ second_fails
                 "devices_db\<lparr>alerts := [\<lparr>al_id = 1, al_user_id = 1, al_geofence_id = Some 1,
                                           al_message = ''out''\<rparr>]\<rparr>"
                 "\<lparr>al_id = 1, al_user_id = 1, al_geofence_id = Some 1, al_message = ''out''\<rparr>"]
  from f create_alert_empty
  have 1: "process_alert_task second_fails empty_db 1 None ''out'' = (empty_db, [], Inl IntegrityError)"
    by simp
  from s create_alert_devices
  have 2: "\<exists>sends.
         process_alert_task second_fails devices_db 1 (Some 1) ''out'' =
           (devices_db\<lparr>alerts := [\<lparr>al_id = 1, al_user_id = 1, al_geofence_id = Some 1,
                                     al_message = ''out''\<rparr>]\<rparr>, sends, Inr ())
         \<and> (\<forall>c\<in>set sends. map_of (sc_data c) ''alert_id'' = Some 1)"
    by auto
  from create_alert_empty 1 create_alert_devices 2 show ?thesis by (intro conjI)
qed


text \<open>
  Claim C7. Once the alert row is persisted, the task calls \<open>send_fcm_notification\<close>
  once for every device of the user, in order, whatever the outcome of each call: the
  result of the call at position \<open>i\<close> is the boolean the send function computes in the
  environment of that call, a failed call stops nothing, and the task ends without error.
  With no device there is no send and no error.
\<close>

theorem process_alert_task_sends_independent:
  assumes "create_alert db user_id geofence_id message = Inr (db1, a)"
  shows "\<exists>sends.
           process_alert_task world db user_id geofence_id message = (db1, sends, Inr ())
           \<and> map sc_token sends = map fcm_token (get_devices_for_user db user_id)
           \<and> (\<forall>i < length sends.
                 sc_result (sends ! i) =
                   send_fcm_notification (world i)
                     (fcm_token (get_devices_for_user db user_id ! i)) ''Geofence Alert'' message
                     (Some [(''alert_id'', al_id a), (''user_id'', user_id),
                            (''geofence_id'', (case geofence_id of None \<Rightarrow> 0 | Some g \<Rightarrow> g))]))
           \<and> (get_devices_for_user db user_id = [] \<longrightarrow> sends = [])"
proof -
  let ?ds = "get_devices_for_user db user_id"
  let ?sends = "send_loop world 0 a user_id geofence_id message ?ds"
  have 1: "process_alert_task world db user_id geofence_id message = (db1, ?sends, Inr ())"
    using assms by (rule process_alert_task_done)
  have 2: "map sc_token ?sends = map fcm_token ?ds" by (rule send_loop_tokens)
  have 3: "\<forall>i < length ?sends.
                 sc_result (?sends ! i) =
                   send_fcm_notification (world i) (fcm_token (?ds ! i)) ''Geofence Alert'' message
                     (Some [(''alert_id'', al_id a), (''user_id'', user_id),
                            (''geofence_id'', (case geofence_id of None \<Rightarrow> 0 | Some g \<Rightarrow> g))])"
    using send_loop_result [of _ ?ds world 0 a user_id geofence_id message]
    by (simp add: send_loop_length)
  have 4: "?ds = [] \<longrightarrow> ?sends = []" by simp
  show ?thesis
    by (rule exI [of _ ?sends]) (intro conjI, fact 1, fact 2, fact 3, fact 4)
qed

theorem process_alert_task_sends_independent_witness:
  "create_alert devices_db 1 (Some 1) ''out'' =
       Inr (devices_db\<lparr>alerts := [\<lparr>al_id = 1, al_user_id = 1, al_geofence_id = Some 1,
                                     al_message = ''out''\<rparr>]\<rparr>,
            \<lparr>al_id = 1, al_user_id = 1, al_geofence_id = Some 1, al_message = ''out''\<rparr>)
   \<and> (\<exists>sends.
         process_alert_task second_fails devices_db 1 (Some 1) ''out'' =
           (devices_db\<lparr>alerts := [\<lparr>al_id = 1, al_user_id = 1, al_geofence_id = Some 1,
                                     al_message = ''out''\<rparr>]\<rparr>, sends, Inr ())
         \<and> map sc_token sends = [''t1'', ''t2'', ''t3'']
         \<and> map sc_result sends = [True, False, True])"
proof -
  let ?db1 = "devices_db\<lparr>alerts := [\<lparr>al_id = 1, al_user_id = 1, al_geofence_id = Some 1,
                                       al_message = ''out''\<rparr>]\<rparr>"
  from process_alert_task_sends_independent [OF create_alert_devices, of second_fails]
  obtain sends where
    run: "process_alert_task second_fails devices_db 1 (Some 1) ''out'' = (?db1, sends, Inr ())"
    and tok: "map sc_token sends = map fcm_token (get_devices_for_user devices_db 1)"
    and res: "\<forall>i < length sends.
                 sc_result (sends ! i) =
                   send_fcm_notification (second_fails i)
                     (fcm_token (get_devices_for_user devices_db 1 ! i)) ''Geofence Alert'' ''out''
                     (Some [(''alert_id'', al_id \<lparr>al_id = 1, al_user_id = 1, al_geofence_id = Some 1,
                                                   al_message = ''out''\<rparr>), (''user_id'', 1),
                            (''geofence_id'', (case Some 1 of None \<Rightarrow> 0 | Some g \<Rightarrow> g))])"
    by (elim exE conjE)
  from tok have tok3: "map sc_token sends = [''t1'', ''t2'', ''t3'']"
    by (simp only: devices_of_ann)
  then have len: "length sends = 3"
    using length_map [of sc_token sends] by simp
  have r0: "sc_result (sends ! 0)"
    using res len by (simp add: second_fails_def send_good)
  have r1: "\<not> sc_result (sends ! 1)"
    using res len by (simp add: second_fails_def send_bad)
  have r2: "sc_result (sends ! 2)"
    using res len by (simp add: second_fails_def send_good)
  have m: "map sc_result sends = [True, False, True]"
    using r0 r1 r2 len
    by (auto simp: list_eq_iff_nth_eq less_Suc_eq numeral_3_eq_3 numeral_2_eq_2)
  show ?thesis
    by (rule conjI, rule create_alert_devices, rule exI [of _ sends], intro conjI)
       (fact run, fact tok3, fact m)
qed

section \<open>Properties of the location upsert\<close>

lemma filter_overwrite:
  "filter (\<lambda>r. ul_user_id r = uid)
     (map (\<lambda>r. if ul_id r = k then r\<lparr>ul_lat := x, ul_lon := y\<rparr> else r) rows)
   = map (\<lambda>r. if ul_id r = k then r\<lparr>ul_lat := x, ul_lon := y\<rparr> else r)
       (filter (\<lambda>r. ul_user_id r = uid) rows)"
  by (induction rows) auto

lemma upsert_user_location_single:
  assumes u: "get_user db (lu_user_id location) \<noteq> None"
    and one: "length (filter (\<lambda>r. ul_user_id r = lu_user_id location) (user_locations db)) \<le> 1"
  shows "\<exists>db1 row.
           upsert_user_location db location = Inr (db1, row)
           \<and> filter (\<lambda>r. ul_user_id r = lu_user_id location) (user_locations db1) = [row]
           \<and> ul_lat row = lat location \<and> ul_lon row = lon location
           \<and> users db1 = users db
           \<and> (\<forall>old. filter (\<lambda>r. ul_user_id r = lu_user_id location) (user_locations db) = [old]
                  \<longrightarrow> ul_id row = ul_id old
                      \<and> length (user_locations db1) = length (user_locations db))"
proof (cases "filter (\<lambda>r. ul_user_id r = lu_user_id location) (user_locations db)")
  case Nil
  with u show ?thesis
    by (auto simp: upsert_user_location_def Let_def)
next
  case (Cons old others)
  with one have others: "others = []" by simp
  with Cons have f: "filter (\<lambda>r. ul_user_id r = lu_user_id location) (user_locations db) = [old]"
    by simp
  have up: "upsert_user_location db location =
              Inr (db\<lparr>user_locations :=
                        map (\<lambda>r. if ul_id r = ul_id old
                                  then r\<lparr>ul_lat := lat location, ul_lon := lon location\<rparr> else r)
                            (user_locations db)\<rparr>,
                   old\<lparr>ul_lat := lat location, ul_lon := lon location\<rparr>)"
    by (simp add: upsert_user_location_def f)
  show ?thesis
    unfolding up by (simp add: filter_overwrite f)
qed

text \<open>
  Claim C8. \<open>upsert_user_location\<close> is keyed by the user id. For a user who exists
  and has at most one location row, an upsert succeeds and leaves exactly one row for that
  user, holding the update's coordinates; when a row was there, the table keeps its length.
  A second upsert for the same user, with the same or other coordinates, overwrites that
  same row (same id): it leaves exactly one row, with the second update's coordinates, and
  appends nothing.
\<close>

theorem upsert_user_location_one_row:
  assumes "get_user db (lu_user_id location) \<noteq> None"
    and "length (filter (\<lambda>r. ul_user_id r = lu_user_id location) (user_locations db)) \<le> 1"
    and "lu_user_id again = lu_user_id location"
  shows "\<exists>db1 row db2 row2.
           upsert_user_location db location = Inr (db1, row)
           \<and> filter (\<lambda>r. ul_user_id r = lu_user_id location) (user_locations db1) = [row]
           \<and> ul_lat row = lat location \<and> ul_lon row = lon location
           \<and> (filter (\<lambda>r. ul_user_id r = lu_user_id location) (user_locations db) \<noteq> []
                 \<longrightarrow> length (user_locations db1) = length (user_locations db))
           \<and> upsert_user_location db1 again = Inr (db2, row2)
           \<and> filter (\<lambda>r. ul_user_id r = lu_user_id location) (user_locations db2) = [row2]
           \<and> ul_id row2 = ul_id row
           \<and> ul_lat row2 = lat again \<and> ul_lon row2 = lon again
           \<and> length (user_locations db2) = length (user_locations db1)"
proof -
  let ?mine = "\<lambda>d. filter (\<lambda>r. ul_user_id r = lu_user_id location) (user_locations d)"
  from upsert_user_location_single [OF assms(1,2)] obtain db1 row where
    up1: "upsert_user_location db location = Inr (db1, row)"
    and f1: "?mine db1 = [row]"
    and c1: "ul_lat row = lat location \<and> ul_lon row = lon location"
    and us: "users db1 = users db"
    and old: "\<forall>old. ?mine db = [old] \<longrightarrow>
                 ul_id row = ul_id old \<and> length (user_locations db1) = length (user_locations db)"
    by (elim exE conjE) (rule that; simp)
  have keep: "?mine db \<noteq> [] \<longrightarrow> length (user_locations db1) = length (user_locations db)"
  proof
    assume ne: "?mine db \<noteq> []"
    with assms(2) obtain o1 where "?mine db = [o1]"
      by (cases "?mine db") auto
    with old show "length (user_locations db1) = length (user_locations db)" by blast
  qed
  have u2: "get_user db1 (lu_user_id again) \<noteq> None"
    using assms(1,3) us by (simp add: get_user_def)
  have one2: "length (filter (\<lambda>r. ul_user_id r = lu_user_id again) (user_locations db1)) \<le> 1"
    using f1 assms(3) by simp
  from upsert_user_location_single [OF u2 one2] obtain db2 row2 where
    up2: "upsert_user_location db1 again = Inr (db2, row2)"
    and f2: "filter (\<lambda>r. ul_user_id r = lu_user_id again) (user_locations db2) = [row2]"
    and c2: "ul_lat row2 = lat again \<and> ul_lon row2 = lon again"
    and old2: "\<forall>old. filter (\<lambda>r. ul_user_id r = lu_user_id again) (user_locations db1) = [old] \<longrightarrow>
                 ul_id row2 = ul_id old \<and> length (user_locations db2) = length (user_locations db1)"
    by (elim exE conjE) (rule that; simp)
  from old2 f1 assms(3)
  have same: "ul_id row2 = ul_id row \<and> length (user_locations db2) = length (user_locations db1)"
    by simp
  from f2 assms(3) have f2': "?mine db2 = [row2]" by simp
  show ?thesis
    using up1 f1 c1 keep up2 f2' same c2
    by (intro exI [of _ db1] exI [of _ row] exI [of _ db2] exI [of _ row2]) simp
qed

theorem upsert_user_location_one_row_witness:
  "get_user ann_db (lu_user_id (origin 1)) \<noteq> None
   \<and> length (filter (\<lambda>r. ul_user_id r = lu_user_id (origin 1)) (user_locations ann_db)) \<le> 1
   \<and> (\<exists>db1 row db2 row2.
         upsert_user_location ann_db (origin 1) = Inr (db1, row)
         \<and> upsert_user_location db1 (origin 1) = Inr (db2, row2)
         \<and> filter (\<lambda>r. ul_user_id r = 1) (user_locations db2) = [row2]
         \<and> ul_id row2 = ul_id row
         \<and> ul_lat row2 = 0 \<and> ul_lon row2 = 0
         \<and> length (user_locations db2) = 1)"
proof -
  have u: "get_user ann_db (lu_user_id (origin 1)) \<noteq> None"
    by (simp add: ann_db_eq origin_def get_user_def)
  have n: "length (filter (\<lambda>r. ul_user_id r = lu_user_id (origin 1)) (user_locations ann_db)) \<le> 1"
    by (simp add: ann_db_eq)
  have r: "lu_user_id (origin 1) = lu_user_id (origin 1)" by simp
  from upsert_user_location_one_row [OF u n r] obtain db1 row db2 row2 where
    up1: "upsert_user_location ann_db (origin 1) = Inr (db1, row)"
    and up2: "upsert_user_location db1 (origin 1) = Inr (db2, row2)"
    and f2: "filter (\<lambda>r. ul_user_id r = lu_user_id (origin 1)) (user_locations db2) = [row2]"
    and i: "ul_id row2 = ul_id row"
    and c: "ul_lat row2 = lat (origin 1)" "ul_lon row2 = lon (origin 1)"
    and l: "length (user_locations db2) = length (user_locations db1)"
    by (elim exE conjE) (rule that, assumption+)
  from up1 have "length (user_locations db1) = 1"
    by (auto simp: upsert_ann_origin)
  with l have l1: "length (user_locations db2) = 1" by simp
  from f2 have f2': "filter (\<lambda>r. ul_user_id r = 1) (user_locations db2) = [row2]"
    by (simp add: origin_def)
  from c have c': "ul_lat row2 = 0 \<and> ul_lon row2 = 0" by (simp add: origin_def)
  show ?thesis
    using u n up1 up2 f2' i c' l1
    by (intro conjI exI [of _ db1] exI [of _ row] exI [of _ db2] exI [of _ row2]) simp_all
qed

section \<open>Properties of geofence creation\<close>

lemma create_geofence_no_user:
  "get_user db (gc_user_id geofence) = None \<Longrightarrow>
     create_geofence db geofence = (db, Inl (HTTPException 404 ''User not found''))"
  by (simp add: create_geofence_def)

text \<open>
  Claim C10, as stated, fails: a creation request with radius \<open>-5\<close> for an existing user
  is accepted, and the geofence is stored with that radius.
\<close>

theorem create_geofence_accepts_negative_radius:
  "create_geofence ann_db
     \<lparr>gc_user_id = 1, gc_center_lat = 0, gc_center_lon = 0, gc_radius_m = - 5\<rparr>
   = (ann_db\<lparr>geofences :=
               [\<lparr>gf_id = 1, gf_user_id = 1, center_lat = 0, center_lon = 0, radius_m = - 5\<rparr>]\<rparr>,
      Inr \<lparr>gf_id = 1, gf_user_id = 1, center_lat = 0, center_lon = 0, radius_m = - 5\<rparr>)
   \<and> \<not> 0 < radius_m \<lparr>gf_id = 1, gf_user_id = 1, center_lat = 0, center_lon = 0, radius_m = - 5\<rparr>"
  by (simp add: create_geofence_def crud_create_geofence_def ann_db_eq get_user_def next_id_def
      Let_def)

text \<open>
  Claim C10, amended. A creation request is rejected only when its user does not exist
  (404, nothing stored). Otherwise it is accepted whatever its radius: the stored geofence
  is appended to the table with \<open>radius_m\<close> equal to the request's, so the stored
  radius is strictly positive exactly when the requested one is.
\<close>

theorem create_geofence_stores_requested_radius:
  "(get_user db (gc_user_id geofence) = None \<longrightarrow>
      create_geofence db geofence = (db, Inl (HTTPException 404 ''User not found'')))
   \<and> (get_user db (gc_user_id geofence) \<noteq> None \<longrightarrow>
        (\<exists>db1 gf.
           create_geofence db geofence = (db1, Inr gf)
           \<and> geofences db1 = geofences db @ [gf]
           \<and> radius_m gf = gc_radius_m geofence
           \<and> (0 < radius_m gf) = (0 < gc_radius_m geofence)))"
  by (auto simp: create_geofence_def crud_create_geofence_def Let_def)

theorem create_geofence_stores_requested_radius_witness:
  "get_user empty_db 1 = None
   \<and> create_geofence empty_db
        \<lparr>gc_user_id = 1, gc_center_lat = 0, gc_center_lon = 0, gc_radius_m = 50\<rparr>
       = (empty_db, Inl (HTTPException 404 ''User not found''))
   \<and> get_user ann_db 1 \<noteq> None
   \<and> (\<exists>db1 gf.
         create_geofence ann_db
           \<lparr>gc_user_id = 1, gc_center_lat = 0, gc_center_lon = 0, gc_radius_m = 50\<rparr> = (db1, Inr gf)
         \<and> geofences db1 = [gf] \<and> radius_m gf = 50)"
proof -
  have e: "get_user empty_db 1 = None" by (simp add: empty_db_def get_user_def)
  have a: "get_user ann_db 1 \<noteq> None" by (simp add: ann_db_eq get_user_def)
  from create_geofence_stores_requested_radius
         [of empty_db "\<lparr>gc_user_id = 1, gc_center_lat = 0, gc_center_lon = 0, gc_radius_m = 50\<rparr>"]
       create_geofence_stores_requested_radius
         [of ann_db "\<lparr>gc_user_id = 1, gc_center_lat = 0, gc_center_lon = 0, gc_radius_m = 50\<rparr>"]
       e a
  show ?thesis by (auto simp: ann_db_eq)
qed

end
